theory Spec2Isabelle
  imports Complex_Main "HOL-Library.Word"
begin

section \<open>Common data: time stamps, vectors, rotations, poses\<close>

text \<open>
  A \<^verbatim>\<open>ros::Time\<close> is a count of nanoseconds; \<^verbatim>\<open>ros::Time(0)\<close> is \<open>0\<close>. A
  \<^verbatim>\<open>ros::Duration\<close> is a signed count of nanoseconds. Both are integers here, compared
  and added as the source compares and adds them; \<open>toSec\<close> is the value in seconds.
  \<^verbatim>\<open>Eigen::Vector3d\<close> is a triple of reals and \<^verbatim>\<open>Eigen::Matrix3d\<close> a triple of rows.
  An orientation is kept as the rotation matrix it denotes, and a 4x4 rigid transform as
  its rotation block and its translation column.
\<close>

type_synonym time = int
type_synonym vec3 = "real \<times> real \<times> real"
type_synonym mat3 = "vec3 \<times> vec3 \<times> vec3"
type_synonym pose = "mat3 \<times> vec3"

definition toSec :: "time \<Rightarrow> real" where
  "toSec t = real_of_int t / 1000000000"

fun vadd :: "vec3 \<Rightarrow> vec3 \<Rightarrow> vec3" where
  "vadd (a1, a2, a3) (b1, b2, b3) = (a1 + b1, a2 + b2, a3 + b3)"

fun vsub :: "vec3 \<Rightarrow> vec3 \<Rightarrow> vec3" where
  "vsub (a1, a2, a3) (b1, b2, b3) = (a1 - b1, a2 - b2, a3 - b3)"

fun vscale :: "real \<Rightarrow> vec3 \<Rightarrow> vec3" where
  "vscale c (a1, a2, a3) = (c * a1, c * a2, c * a3)"

fun vdiv :: "vec3 \<Rightarrow> real \<Rightarrow> vec3" where
  "vdiv (a1, a2, a3) c = (a1 / c, a2 / c, a3 / c)"

fun vdot :: "vec3 \<Rightarrow> vec3 \<Rightarrow> real" where
  "vdot (a1, a2, a3) (b1, b2, b3) = a1 * b1 + a2 * b2 + a3 * b3"

definition vnorm :: "vec3 \<Rightarrow> real" where
  "vnorm v = sqrt (vdot v v)"

definition vzero :: vec3 where
  "vzero = (0, 0, 0)"

fun mat_vec :: "mat3 \<Rightarrow> vec3 \<Rightarrow> vec3" where
  "mat_vec (r1, r2, r3) v = (vdot r1 v, vdot r2 v, vdot r3 v)"

fun mat_transpose :: "mat3 \<Rightarrow> mat3" where
  "mat_transpose ((a11, a12, a13), (a21, a22, a23), (a31, a32, a33)) =
     ((a11, a21, a31), (a12, a22, a32), (a13, a23, a33))"

definition mat_mul :: "mat3 \<Rightarrow> mat3 \<Rightarrow> mat3" where
  "mat_mul A B =
     (case mat_transpose B of (c1, c2, c3) \<Rightarrow>
        (case A of (r1, r2, r3) \<Rightarrow>
           ((vdot r1 c1, vdot r1 c2, vdot r1 c3),
            (vdot r2 c1, vdot r2 c2, vdot r2 c3),
            (vdot r3 c1, vdot r3 c2, vdot r3 c3))))"

definition mat_id :: mat3 where
  "mat_id = ((1, 0, 0), (0, 1, 0), (0, 0, 1))"

text \<open>
  Reals stand for the doubles of the source, except where the source divides by zero: the
  quotient of a vector by \<open>0.0\<close> has \<open>inf\<close> or \<open>NaN\<close> in every component. Such a vector is
  \<open>NonFinite\<close>; adding a finite vector to it, scaling it by a finite factor and dividing
  it leave every component \<open>inf\<close> or \<open>NaN\<close>.
\<close>

datatype dvec = Finite vec3 | NonFinite

fun dadd :: "dvec \<Rightarrow> dvec \<Rightarrow> dvec" where
  "dadd (Finite a) (Finite b) = Finite (vadd a b)"
| "dadd (Finite a) NonFinite = NonFinite"
| "dadd NonFinite b = NonFinite"

fun dsub :: "dvec \<Rightarrow> dvec \<Rightarrow> dvec" where
  "dsub (Finite a) (Finite b) = Finite (vsub a b)"
| "dsub (Finite a) NonFinite = NonFinite"
| "dsub NonFinite b = NonFinite"

fun dscale :: "real \<Rightarrow> dvec \<Rightarrow> dvec" where
  "dscale c (Finite a) = Finite (vscale c a)"
| "dscale c NonFinite = NonFinite"

fun ddiv :: "dvec \<Rightarrow> real \<Rightarrow> dvec" where
  "ddiv (Finite a) c = (if c = 0 then NonFinite else Finite (vdiv a c))"
| "ddiv NonFinite c = NonFinite"

type_synonym imu_pose = "mat3 \<times> dvec"

section \<open>IMU preintegration (bs\_models, imu\_preintegration.cpp)\<close>

text \<open>\<^verbatim>\<open>bs_common::IMUData\<close>: stamp \<^verbatim>\<open>t\<close>, angular velocity \<^verbatim>\<open>w\<close>, acceleration \<^verbatim>\<open>a\<close>.\<close>

record IMUData =
  imu_t :: time
  imu_w :: vec3
  imu_a :: vec3

text \<open>\<^verbatim>\<open>PreIntegrator::delta\<close>: elapsed time, rotation, velocity and position increments.\<close>

record Delta =
  delta_t :: time
  delta_q :: mat3
  delta_v :: vec3
  delta_p :: vec3

text \<open>
  \<^verbatim>\<open>bs_common::PreIntegrator\<close>: the samples collected for the interval and the integrated
  delta. Its noise settings, covariance and Jacobians are read by no operation below.
\<close>

record PreIntegrator =
  data :: "IMUData list"
  delta :: Delta

record ImuState =
  Stamp :: time
  Orientation :: mat3
  Position :: dvec
  Velocity :: dvec
  GyroBias :: vec3
  AccelBias :: vec3

text \<open>
  What the preintegrator calls but the repository sources do not contain:
  \<^verbatim>\<open>PreIntegrator::Integrate\<close> and \<^verbatim>\<open>PreIntegrator::Reset\<close>, the constant
  \<^verbatim>\<open>GRAVITY_WORLD\<close>, the default-constructed \<^verbatim>\<open>PreIntegrator\<close>, the
  constructor \<^verbatim>\<open>ImuState(t)\<close> and \<^verbatim>\<open>ros::Time::toSec\<close>. They are parameters of the
  model. \<open>Time_toSec\<close> is the double \<^verbatim>\<open>toSec()\<close> returns for a stamp: at the size of an
  epoch stamp it is the seconds rounded to a double, and two stamps a few nanoseconds
  apart can have the same one. The seconds of a \<^verbatim>\<open>ros::Duration\<close> are taken exactly
  (\<open>toSec\<close>).
\<close>

record imu_ext =
  Integrate :: "PreIntegrator \<Rightarrow> time \<Rightarrow> vec3 \<Rightarrow> vec3 \<Rightarrow> bool \<Rightarrow> bool \<Rightarrow> PreIntegrator"
  Reset :: "PreIntegrator \<Rightarrow> PreIntegrator"
  GRAVITY_WORLD :: vec3
  PreIntegrator_new :: PreIntegrator
  ImuState_new :: "time \<Rightarrow> ImuState"
  Time_toSec :: "time \<Rightarrow> real"

text \<open>The members of \<^verbatim>\<open>ImuPreintegration\<close>. A \<^verbatim>\<open>std::queue\<close> is a list, front first.\<close>

record ImuPreintegration =
  current_imu_data_buffer :: "IMUData list"
  total_imu_data_buffer :: "IMUData list"
  pre_integrator_ij :: PreIntegrator
  imu_state_i :: ImuState
  imu_state_k :: ImuState
  first_window :: bool
  bg :: vec3
  ba :: vec3
  cov_prior_noise :: real

text \<open>
  Reading \<^verbatim>\<open>front()\<close> of an empty \<^verbatim>\<open>std::queue\<close>, indexing a vector out of its
  bounds with \<^verbatim>\<open>operator[]\<close> and dereferencing a null pointer are undefined behaviour;
  \<^verbatim>\<open>std::vector::at\<close> out of range throws. All are values of the model.
\<close>

datatype fault = FrontOfEmptyQueue | OutOfRange | IndexOutOfBounds | NullDereference

text \<open>What the IMU transaction receives, in the order of the calls.\<close>

datatype imu_entry =
  PriorImuStateConstraint ImuState real string
| ImuStateVariables ImuState
| RelativeImuStateConstraint ImuState ImuState PreIntegrator

text \<open>\<^verbatim>\<open>GetTransaction\<close>: the null pointer (None) for an empty transaction.\<close>

definition GetTransaction_imu :: "imu_entry list \<Rightarrow> imu_entry list option" where
  "GetTransaction_imu tx = (if tx = [] then None else Some tx)"

definition AddToBuffer :: "ImuPreintegration \<Rightarrow> IMUData \<Rightarrow> ImuPreintegration" where
  "AddToBuffer s imu_data =
     s\<lparr>current_imu_data_buffer := current_imu_data_buffer s @ [imu_data],
       total_imu_data_buffer := total_imu_data_buffer s @ [imu_data]\<rparr>"

definition ResetPreintegrator :: "imu_ext \<Rightarrow> ImuPreintegration \<Rightarrow> ImuPreintegration" where
  "ResetPreintegrator ext s =
     s\<lparr>pre_integrator_ij := (Reset ext (pre_integrator_ij s))\<lparr>data := []\<rparr>\<rparr>"

text \<open>\<^verbatim>\<open>while (t > buffer.front().t) buffer.pop();\<close>\<close>

fun pop_before :: "time \<Rightarrow> IMUData list \<Rightarrow> fault + IMUData list" where
  "pop_before t [] = Inl FrontOfEmptyQueue"
| "pop_before t (d # ds) = (if t > imu_t d then pop_before t ds else Inr (d # ds))"

definition SetStart ::
  "imu_ext \<Rightarrow> ImuPreintegration \<Rightarrow> time \<Rightarrow> mat3 option \<Rightarrow> vec3 option \<Rightarrow> vec3 option
     \<Rightarrow> fault + ImuPreintegration" where
  "SetStart ext s t_start R_WORLD_IMU t_WORLD_IMU velocity =
     (case pop_before t_start (current_imu_data_buffer s) of
        Inl e \<Rightarrow> Inl e
      | Inr cur \<Rightarrow>
        (case pop_before t_start (total_imu_data_buffer s) of
           Inl e \<Rightarrow> Inl e
         | Inr tot \<Rightarrow>
           (let s0 = ImuState_new ext t_start;
                s1 = (case R_WORLD_IMU of None \<Rightarrow> s0 | Some R \<Rightarrow> s0\<lparr>Orientation := R\<rparr>);
                s2 = (case t_WORLD_IMU of None \<Rightarrow> s1 | Some p \<Rightarrow> s1\<lparr>Position := Finite p\<rparr>);
                s3 = (case velocity of None \<Rightarrow> s2 | Some v \<Rightarrow> s2\<lparr>Velocity := Finite v\<rparr>);
                s4 = s3\<lparr>GyroBias := bg s, AccelBias := ba s\<rparr>
            in Inr (s\<lparr>current_imu_data_buffer := cur, total_imu_data_buffer := tot,
                      imu_state_i := s4, imu_state_k := s4\<rparr>))))"

text \<open>
  \<^verbatim>\<open>PredictState\<close>. The stamp of the new state is \<open>t_now\<close> unless \<open>t_now\<close> is
  \<^verbatim>\<open>ros::Time(0)\<close>, which stands for "no time given".
\<close>

definition PredictState :: "imu_ext \<Rightarrow> PreIntegrator \<Rightarrow> ImuState \<Rightarrow> time \<Rightarrow> ImuState" where
  "PredictState ext pre_integrator imu_state_curr t_now =
     (let dt = toSec (delta_t (delta pre_integrator));
          q_curr = Orientation imu_state_curr;
          q_new = mat_mul q_curr (delta_q (delta pre_integrator));
          v_new = dadd (dadd (Velocity imu_state_curr)
                                   (Finite (vscale dt (GRAVITY_WORLD ext))))
                       (Finite (mat_vec q_curr (delta_v (delta pre_integrator))));
          p_new = dadd (dadd (dadd (Position imu_state_curr)
                                   (dscale dt (Velocity imu_state_curr)))
                             (Finite (vscale (0.5 * dt * dt) (GRAVITY_WORLD ext))))
                       (Finite (mat_vec q_curr (delta_p (delta pre_integrator))));
          t_new = (if t_now \<noteq> 0 then t_now
                   else Stamp imu_state_curr + delta_t (delta pre_integrator))
      in \<lparr>Stamp = t_new, Orientation = q_new, Position = p_new, Velocity = v_new,
          GyroBias = GyroBias imu_state_curr, AccelBias = AccelBias imu_state_curr\<rparr>)"

text \<open>
  The loop of \<^verbatim>\<open>GetPose\<close>: \<^verbatim>\<open>while (t_now > buffer.front().t)\<close> moves the front sample
  into the integrators. It returns the remaining buffer and the samples moved, in order.
\<close>

fun populate_GetPose :: "time \<Rightarrow> IMUData list \<Rightarrow> fault + (IMUData list \<times> IMUData list)" where
  "populate_GetPose t_now [] = Inl FrontOfEmptyQueue"
| "populate_GetPose t_now (d # ds) =
     (if t_now > imu_t d
      then (case populate_GetPose t_now ds of
              Inl e \<Rightarrow> Inl e
            | Inr (rest, moved) \<Rightarrow> Inr (rest, d # moved))
      else Inr (d # ds, []))"

text \<open>
  \<^verbatim>\<open>GetPose\<close>: the result is None for \<^verbatim>\<open>return false\<close> and the pose written to
  \<^verbatim>\<open>T_WORLD_IMU\<close> for \<^verbatim>\<open>return true\<close>.
\<close>

definition GetPose ::
  "imu_ext \<Rightarrow> ImuPreintegration \<Rightarrow> time \<Rightarrow> fault + (ImuPreintegration \<times> imu_pose option)" where
  "GetPose ext s t_now =
     (case current_imu_data_buffer s of
        [] \<Rightarrow> Inl FrontOfEmptyQueue
      | d # ds \<Rightarrow>
        if t_now < imu_t d then Inr (s, None)
        else
          (case populate_GetPose t_now (d # ds) of
             Inl e \<Rightarrow> Inl e
           | Inr (rest, moved) \<Rightarrow>
             (let pre_integrator_interval =
                    (PreIntegrator_new ext)\<lparr>data := data (PreIntegrator_new ext) @ moved\<rparr>;
                  pre_ij = (pre_integrator_ij s)\<lparr>data := data (pre_integrator_ij s) @ moved\<rparr>;
                  integrated = Integrate ext pre_integrator_interval t_now
                                 (GyroBias (imu_state_i s)) (AccelBias (imu_state_i s))
                                 False False;
                  k = PredictState ext integrated (imu_state_k s) t_now
              in Inr (s\<lparr>current_imu_data_buffer := rest, pre_integrator_ij := pre_ij,
                        imu_state_k := k\<rparr>,
                      Some (Orientation k, Position k)))))"

text \<open>
  The loop of \<^verbatim>\<open>RegisterNewImuPreintegratedFactor\<close>:
  \<^verbatim>\<open>while (t_now > buffer.front().t && !buffer.empty())\<close>. The left operand is evaluated
  first, so the front is read before the emptiness test.
\<close>

fun populate_Register :: "time \<Rightarrow> IMUData list \<Rightarrow> fault + (IMUData list \<times> IMUData list)" where
  "populate_Register t_now [] = Inl FrontOfEmptyQueue"
| "populate_Register t_now (d # ds) =
     (if t_now > imu_t d \<and> d # ds \<noteq> []
      then (case populate_Register t_now ds of
              Inl e \<Rightarrow> Inl e
            | Inr (rest, moved) \<Rightarrow> Inr (rest, d # moved))
      else Inr (d # ds, []))"

text \<open>
  \<^verbatim>\<open>RegisterNewImuPreintegratedFactor\<close>: the result is None for the null pointer. The
  chord velocity is the difference of the positions divided by the difference of the two
  \<^verbatim>\<open>toSec()\<close> doubles; when these are equal it is a quotient by zero.
\<close>

definition RegisterNewImuPreintegratedFactor ::
  "imu_ext \<Rightarrow> ImuPreintegration \<Rightarrow> time \<Rightarrow> mat3 option \<Rightarrow> vec3 option
     \<Rightarrow> fault + (ImuPreintegration \<times> imu_entry list option)" where
  "RegisterNewImuPreintegratedFactor ext s t_now R_WORLD_IMU t_WORLD_IMU =
     (case current_imu_data_buffer s of
        [] \<Rightarrow> Inl FrontOfEmptyQueue
      | d # ds \<Rightarrow>
        if t_now < imu_t d then Inr (s, None)
        else
          (let tx1 = (if first_window s
                      then [PriorImuStateConstraint (imu_state_i s) (cov_prior_noise s)
                              ''FIRST_IMU_STATE_PRIOR'',
                            ImuStateVariables (imu_state_i s)]
                      else [])
           in case populate_Register t_now (d # ds) of
                Inl e \<Rightarrow> Inl e
              | Inr (rest, moved) \<Rightarrow>
                (let pre_ij = Integrate ext
                                ((pre_integrator_ij s)\<lparr>data := data (pre_integrator_ij s) @ moved\<rparr>)
                                t_now (GyroBias (imu_state_i s)) (AccelBias (imu_state_i s))
                                True True;
                     imu_state_j = PredictState ext pre_ij (imu_state_i s) t_now;
                     tx2 = tx1 @ [RelativeImuStateConstraint (imu_state_i s) imu_state_j pre_ij,
                                  ImuStateVariables imu_state_j];
                     imu_state_j' =
                       (case (R_WORLD_IMU, t_WORLD_IMU) of
                          (Some R, Some p) \<Rightarrow>
                            imu_state_j\<lparr>Orientation := R, Position := Finite p,
                              Velocity := ddiv (dsub (Finite p) (Position (imu_state_i s)))
                                               (Time_toSec ext t_now -
                                                Time_toSec ext (Stamp (imu_state_i s)))\<rparr>
                        | _ \<Rightarrow> imu_state_j)
                 in case pop_before (Stamp imu_state_j') (total_imu_data_buffer s) of
                      Inl e \<Rightarrow> Inl e
                    | Inr tot \<Rightarrow>
                        Inr (ResetPreintegrator ext
                               (s\<lparr>current_imu_data_buffer := rest,
                                  total_imu_data_buffer := tot,
                                  pre_integrator_ij := pre_ij,
                                  imu_state_i := imu_state_j',
                                  imu_state_k := imu_state_j',
                                  first_window := False\<rparr>),
                             GetTransaction_imu tx2))))"

text \<open>
  The predicted state in the words of the specification: the delta is integrated under
  zero gravity and gravity is added at predict time in the world frame. With \<open>T\<close> the
  seconds of \<open>\<Delta>t\<close>: \<open>q\<^sub>j = q\<^sub>i \<Delta>q\<close>, \<open>v\<^sub>j = v\<^sub>i + g T + q\<^sub>i \<Delta>v\<close>,
  \<open>p\<^sub>j = p\<^sub>i + v\<^sub>i T + g T\<^sup>2 / 2 + q\<^sub>i \<Delta>p\<close>, and the biases of state \<open>i\<close> are kept. A
  velocity that is not finite stays so and makes the position not finite.
\<close>

definition spec_predicted_state :: "vec3 \<Rightarrow> Delta \<Rightarrow> ImuState \<Rightarrow> time \<Rightarrow> ImuState" where
  "spec_predicted_state g D state_i t_j =
     (let T = real_of_int (delta_t D) / 1000000000
      in \<lparr>Stamp = t_j,
          Orientation = mat_mul (Orientation state_i) (delta_q D),
          Position =
            (case (Position state_i, Velocity state_i, g,
                   mat_vec (Orientation state_i) (delta_p D)) of
               (Finite (p1, p2, p3), Finite (v1, v2, v3), (g1, g2, g3), (r1, r2, r3)) \<Rightarrow>
                 Finite (p1 + v1 * T + g1 * T\<^sup>2 / 2 + r1,
                         p2 + v2 * T + g2 * T\<^sup>2 / 2 + r2,
                         p3 + v3 * T + g3 * T\<^sup>2 / 2 + r3)
             | _ \<Rightarrow> NonFinite),
          Velocity =
            (case (Velocity state_i, g, mat_vec (Orientation state_i) (delta_v D)) of
               (Finite (v1, v2, v3), (g1, g2, g3), (r1, r2, r3)) \<Rightarrow>
                 Finite (v1 + g1 * T + r1, v2 + g2 * T + r2, v3 + g3 * T + r3)
             | _ \<Rightarrow> NonFinite),
          GyroBias = GyroBias state_i, AccelBias = AccelBias state_i\<rparr>)"

text \<open>The call sequence \<^verbatim>\<open>RegisterNewImuPreintegratedFactor(t_j); GetPose(T, t_j)\<close>.\<close>

definition Register_then_GetPose ::
  "imu_ext \<Rightarrow> ImuPreintegration \<Rightarrow> time \<Rightarrow> mat3 option \<Rightarrow> vec3 option
     \<Rightarrow> fault + (ImuPreintegration \<times> imu_entry list option \<times> imu_pose option)" where
  "Register_then_GetPose ext s t_j R_WORLD_IMU t_WORLD_IMU =
     (case RegisterNewImuPreintegratedFactor ext s t_j R_WORLD_IMU t_WORLD_IMU of
        Inl e \<Rightarrow> Inl e
      | Inr (s', None) \<Rightarrow> Inr (s', None, None)
      | Inr (s', Some tx) \<Rightarrow>
          (case GetPose ext s' t_j of
             Inl e \<Rightarrow> Inl e
           | Inr (s'', T) \<Rightarrow> Inr (s'', Some tx, T)))"

subsection \<open>Concrete inputs for the preintegrator\<close>

text \<open>
  Samples, states and one instance of the absent operations, used to run the model on
  concrete inputs. The general theorems hold for every instance of \<open>imu_ext\<close>.
\<close>

definition imu_sample :: "time \<Rightarrow> IMUData" where
  "imu_sample t = \<lparr>imu_t = t, imu_w = vzero, imu_a = vzero\<rparr>"

definition zero_Delta :: Delta where
  "zero_Delta = \<lparr>delta_t = 0, delta_q = mat_id, delta_v = vzero, delta_p = vzero\<rparr>"

definition rest_state :: "time \<Rightarrow> ImuState" where
  "rest_state t = \<lparr>Stamp = t, Orientation = mat_id, Position = Finite vzero,
                    Velocity = Finite vzero,
                    GyroBias = vzero, AccelBias = vzero\<rparr>"

definition demo_ext :: imu_ext where
  "demo_ext = \<lparr>Integrate = (\<lambda>pre t b_g b_a cj cc.
                   pre\<lparr>delta := (case data pre of [] \<Rightarrow> zero_Delta
                                   | d # ds \<Rightarrow> zero_Delta\<lparr>delta_t := t - imu_t d\<rparr>)\<rparr>),
               Reset = (\<lambda>pre. pre\<lparr>delta := zero_Delta\<rparr>),
               GRAVITY_WORLD = (0, 0, - 981 / 100),
               PreIntegrator_new = \<lparr>data = [], delta = zero_Delta\<rparr>,
               ImuState_new = rest_state,
               Time_toSec = toSec\<rparr>"

definition demo_imu :: "IMUData list \<Rightarrow> ImuPreintegration" where
  "demo_imu buf = \<lparr>current_imu_data_buffer = buf, total_imu_data_buffer = buf,
                   pre_integrator_ij = \<lparr>data = [], delta = zero_Delta\<rparr>,
                   imu_state_i = rest_state 0, imu_state_k = rest_state 0,
                   first_window = True, bg = vzero, ba = vzero, cov_prior_noise = 1\<rparr>"

text \<open>The same preintegrator with its anchor and current state at rest at the stamp \<open>t\<close>.\<close>

definition demo_imu_at :: "time \<Rightarrow> IMUData list \<Rightarrow> ImuPreintegration" where
  "demo_imu_at t buf = (demo_imu buf)\<lparr>imu_state_i := rest_state t, imu_state_k := rest_state t\<rparr>"

text \<open>
  A second instance of the integration: no rotation, and the acceleration of the first
  sample, less the bias, held over the whole interval.
\<close>

definition accel_sample :: "time \<Rightarrow> vec3 \<Rightarrow> IMUData" where
  "accel_sample t acc = \<lparr>imu_t = t, imu_w = vzero, imu_a = acc\<rparr>"

definition const_accel_ext :: imu_ext where
  "const_accel_ext =
     demo_ext\<lparr>Integrate := (\<lambda>pre t b_g b_a cj cc.
        pre\<lparr>delta :=
              (case data pre of
                 [] \<Rightarrow> zero_Delta
               | d # ds \<Rightarrow>
                   \<lparr>delta_t = t - imu_t d, delta_q = mat_id,
                    delta_v = vscale (toSec (t - imu_t d)) (vsub (imu_a d) b_a),
                    delta_p = vscale (toSec (t - imu_t d) * toSec (t - imu_t d) / 2)
                                (vsub (imu_a d) b_a)\<rparr>)\<rparr>)\<rparr>"

section \<open>Transactions (bs\_constraints)\<close>

text \<open>
  \<^verbatim>\<open>fuse_core::Transaction\<close> belongs to the fuse library, outside the repository. It is
  modelled with the containers its \<^verbatim>\<open>empty()\<close> reads: the involved stamps, the added and
  removed constraints and the added and removed variables. A stamped variable is
  identified by its type and stamp. Every constraint built below is a new object with a
  fresh identifier, hence found neither among the removed nor among the added constraints
  when it is added: \<^verbatim>\<open>addConstraint\<close> appends it.
\<close>

datatype Position3DStamped = Position3DStamped time vec3

datatype Orientation3DStamped = Orientation3DStamped time mat3

datatype variable =
  PositionVariable Position3DStamped
| OrientationVariable Orientation3DStamped

type_synonym var_uuid = "bool \<times> time"

fun var_id :: "variable \<Rightarrow> var_uuid" where
  "var_id (PositionVariable (Position3DStamped t p)) = (False, t)"
| "var_id (OrientationVariable (Orientation3DStamped t q)) = (True, t)"

type_synonym covariance = "real list list"

datatype constraint =
  RelativePose3DStampedConstraint string Position3DStamped Orientation3DStamped
    Position3DStamped Orientation3DStamped pose covariance
| AbsolutePose3DStampedConstraint string Position3DStamped Orientation3DStamped pose covariance

record Transaction =
  tx_stamp :: time
  involved_stamps :: "time list"
  added_constraints :: "constraint list"
  removed_constraints :: "constraint list"
  added_variables :: "variable list"
  removed_variables :: "var_uuid list"

definition Transaction_new :: Transaction where
  "Transaction_new = \<lparr>tx_stamp = 0, involved_stamps = [], added_constraints = [],
                       removed_constraints = [], added_variables = [], removed_variables = []\<rparr>"

definition tx_empty :: "Transaction \<Rightarrow> bool" where
  "tx_empty tx = (added_variables tx = [] \<and> removed_variables tx = [] \<and>
                  added_constraints tx = [] \<and> removed_constraints tx = [] \<and>
                  involved_stamps tx = [])"

definition addInvolvedStamp :: "time \<Rightarrow> Transaction \<Rightarrow> Transaction" where
  "addInvolvedStamp t tx = tx\<lparr>involved_stamps := List.insert t (involved_stamps tx)\<rparr>"

definition addConstraint :: "constraint \<Rightarrow> bool \<Rightarrow> Transaction \<Rightarrow> Transaction" where
  "addConstraint c overwrite tx = tx\<lparr>added_constraints := added_constraints tx @ [c]\<rparr>"

text \<open>
  \<^verbatim>\<open>addVariable\<close>: the variable leaves the removed container; it is appended when no added
  variable has its identifier, and replaces that one when \<open>overwrite\<close> is set.
\<close>

definition addVariable :: "variable \<Rightarrow> bool \<Rightarrow> Transaction \<Rightarrow> Transaction" where
  "addVariable v overwrite tx =
     (let tx1 = tx\<lparr>removed_variables := remove1 (var_id v) (removed_variables tx)\<rparr>
      in if var_id v \<notin> var_id ` set (added_variables tx1)
         then tx1\<lparr>added_variables := added_variables tx1 @ [v]\<rparr>
         else if overwrite
         then tx1\<lparr>added_variables :=
                    map (\<lambda>u. if var_id u = var_id v then v else u) (added_variables tx1)\<rparr>
         else tx1)"

text \<open>
  \<^verbatim>\<open>merge\<close>, for transactions built apart: the later stamp, the stamps, constraints and
  variables of both.
\<close>

definition merge :: "Transaction \<Rightarrow> Transaction \<Rightarrow> Transaction" where
  "merge tx other =
     (let tx1 = tx\<lparr>tx_stamp := max (tx_stamp tx) (tx_stamp other),
                   involved_stamps := fold List.insert (involved_stamps other) (involved_stamps tx)\<rparr>;
          tx2 = fold (\<lambda>c. addConstraint c False) (added_constraints other) tx1;
          tx3 = tx2\<lparr>removed_constraints := removed_constraints tx2 @ removed_constraints other\<rparr>;
          tx4 = fold (\<lambda>v. addVariable v False) (added_variables other) tx3
      in tx4\<lparr>removed_variables := removed_variables tx4 @ removed_variables other\<rparr>)"

text \<open>
  \<^verbatim>\<open>Pose3DStampedTransaction\<close> and the template \<^verbatim>\<open>RelativePoseTransactionBase\<close> hold the
  same three members (\<^verbatim>\<open>transaction_\<close>, \<^verbatim>\<open>override_constraints_\<close>,
  \<^verbatim>\<open>override_variables_\<close>) and the same \<^verbatim>\<open>GetTransaction\<close>.
\<close>

record PoseTransaction =
  transaction :: Transaction
  override_constraints :: bool
  override_variables :: bool

definition PoseTransaction_new :: "time \<Rightarrow> bool \<Rightarrow> bool \<Rightarrow> PoseTransaction" where
  "PoseTransaction_new transaction_stamp oc ov =
     \<lparr>transaction = Transaction_new\<lparr>tx_stamp := transaction_stamp\<rparr>,
      override_constraints = oc, override_variables = ov\<rparr>"

definition GetTransaction :: "PoseTransaction \<Rightarrow> Transaction option" where
  "GetTransaction b = (if tx_empty (transaction b) then None else Some (transaction b))"

definition AddConstraint :: "constraint \<Rightarrow> PoseTransaction \<Rightarrow> PoseTransaction" where
  "AddConstraint c b =
     b\<lparr>transaction := addConstraint c (override_constraints b) (transaction b)\<rparr>"

definition AddPrior :: "constraint \<Rightarrow> PoseTransaction \<Rightarrow> PoseTransaction" where
  "AddPrior prior b =
     b\<lparr>transaction := addConstraint prior (override_constraints b) (transaction b)\<rparr>"

fun position_data :: "Position3DStamped \<Rightarrow> vec3" where
  "position_data (Position3DStamped t p) = p"

fun orientation_data :: "Orientation3DStamped \<Rightarrow> mat3" where
  "orientation_data (Orientation3DStamped t q) = q"

text \<open>The overload taking fuse variables and the relative pose as two variables.\<close>

definition AddPoseConstraint ::
  "Position3DStamped \<Rightarrow> Position3DStamped \<Rightarrow> Orientation3DStamped \<Rightarrow> Orientation3DStamped
     \<Rightarrow> Position3DStamped \<Rightarrow> Orientation3DStamped \<Rightarrow> covariance \<Rightarrow> string
     \<Rightarrow> PoseTransaction \<Rightarrow> PoseTransaction" where
  "AddPoseConstraint position1 position2 orientation1 orientation2
       position2_relative orientation2_relative cov source b =
     (let pose_relative_mean = (orientation_data orientation2_relative,
                                position_data position2_relative);
          c = RelativePose3DStampedConstraint source position1 orientation1
                position2 orientation2 pose_relative_mean cov
      in b\<lparr>transaction := addConstraint c (override_constraints b) (transaction b)\<rparr>)"

text \<open>The overload of the base class taking transforms and stamps.\<close>

definition AddPoseConstraint_T ::
  "pose \<Rightarrow> pose \<Rightarrow> time \<Rightarrow> time \<Rightarrow> pose \<Rightarrow> covariance \<Rightarrow> string
     \<Rightarrow> PoseTransaction \<Rightarrow> PoseTransaction" where
  "AddPoseConstraint_T T_WORLD_FRAME1 T_WORLD_FRAME2 stamp1 stamp2 T_FRAME1_FRAME2 cov source b =
     (let p1 = Position3DStamped stamp1 (snd T_WORLD_FRAME1);
          o1 = Orientation3DStamped stamp1 (fst T_WORLD_FRAME1);
          p2 = Position3DStamped stamp2 (snd T_WORLD_FRAME2);
          o2 = Orientation3DStamped stamp2 (fst T_WORLD_FRAME2);
          c = RelativePose3DStampedConstraint source p1 o1 p2 o2 T_FRAME1_FRAME2 cov
      in b\<lparr>transaction := addConstraint c (override_constraints b) (transaction b)\<rparr>)"

definition AddPosePrior ::
  "Position3DStamped \<Rightarrow> Orientation3DStamped \<Rightarrow> covariance \<Rightarrow> string
     \<Rightarrow> PoseTransaction \<Rightarrow> PoseTransaction" where
  "AddPosePrior position orientation prior_covariance prior_source b =
     (let mean = (orientation_data orientation, position_data position);
          prior = AbsolutePose3DStampedConstraint prior_source position orientation mean
                    prior_covariance
      in b\<lparr>transaction := addConstraint prior (override_constraints b) (transaction b)\<rparr>)"

definition diag6 :: "real \<Rightarrow> covariance" where
  "diag6 x = map (\<lambda>i. map (\<lambda>j. if i = j then x else 0) [0..<6]) [0..<6]"

definition AddPosePrior_noise ::
  "Position3DStamped \<Rightarrow> Orientation3DStamped \<Rightarrow> real \<Rightarrow> string
     \<Rightarrow> PoseTransaction \<Rightarrow> PoseTransaction" where
  "AddPosePrior_noise position orientation prior_covariance_noise prior_source b =
     AddPosePrior position orientation (diag6 prior_covariance_noise) prior_source b"

definition AddPoseVariables ::
  "Position3DStamped \<Rightarrow> Orientation3DStamped \<Rightarrow> time
     \<Rightarrow> PoseTransaction \<Rightarrow> PoseTransaction" where
  "AddPoseVariables position orientation stamp b =
     b\<lparr>transaction :=
         addVariable (OrientationVariable orientation) (override_variables b)
           (addVariable (PositionVariable position) (override_variables b)
              (addInvolvedStamp stamp (transaction b)))\<rparr>"

definition AddPoseVariables_T :: "pose \<Rightarrow> time \<Rightarrow> PoseTransaction \<Rightarrow> PoseTransaction" where
  "AddPoseVariables_T T_WORLD_FRAME stamp b =
     (let p = Position3DStamped stamp (snd T_WORLD_FRAME);
          o_var = Orientation3DStamped stamp (fst T_WORLD_FRAME)
      in b\<lparr>transaction :=
             addVariable (OrientationVariable o_var) (override_variables b)
               (addVariable (PositionVariable p) (override_variables b)
                  (addInvolvedStamp stamp (transaction b)))\<rparr>)"

text \<open>The calls a producer can make on a transaction builder between its construction and \<^verbatim>\<open>GetTransaction\<close>.\<close>

datatype builder_call =
  Call_AddConstraint constraint
| Call_AddPrior constraint
| Call_AddPoseConstraint Position3DStamped Position3DStamped Orientation3DStamped
    Orientation3DStamped Position3DStamped Orientation3DStamped covariance string
| Call_AddPoseConstraint_T pose pose time time pose covariance string
| Call_AddPosePrior Position3DStamped Orientation3DStamped covariance string
| Call_AddPosePrior_noise Position3DStamped Orientation3DStamped real string
| Call_AddPoseVariables Position3DStamped Orientation3DStamped time
| Call_AddPoseVariables_T pose time

fun run_call :: "PoseTransaction \<Rightarrow> builder_call \<Rightarrow> PoseTransaction" where
  "run_call b (Call_AddConstraint c) = AddConstraint c b"
| "run_call b (Call_AddPrior c) = AddPrior c b"
| "run_call b (Call_AddPoseConstraint p1 p2 o1 o2 pr orl cov src) =
     AddPoseConstraint p1 p2 o1 o2 pr orl cov src b"
| "run_call b (Call_AddPoseConstraint_T T1 T2 s1 s2 T12 cov src) =
     AddPoseConstraint_T T1 T2 s1 s2 T12 cov src b"
| "run_call b (Call_AddPosePrior p q cov src) = AddPosePrior p q cov src b"
| "run_call b (Call_AddPosePrior_noise p q x src) = AddPosePrior_noise p q x src b"
| "run_call b (Call_AddPoseVariables p q t) = AddPoseVariables p q t b"
| "run_call b (Call_AddPoseVariables_T T t) = AddPoseVariables_T T t b"

definition built :: "time \<Rightarrow> bool \<Rightarrow> bool \<Rightarrow> builder_call list \<Rightarrow> PoseTransaction" where
  "built transaction_stamp oc ov calls =
     foldl run_call (PoseTransaction_new transaction_stamp oc ov) calls"

section \<open>Global map (bs\_models, global\_map.cpp)\<close>

text \<open>
  A rigid transform \<open>(R, t)\<close> stands for the 4x4 matrix with rotation block \<open>R\<close>,
  translation column \<open>t\<close> and last row \<open>(0, 0, 0, 1)\<close>; \<open>pose_mul\<close> is the matrix
  product and \<open>InvertTransform\<close> is libbeam's inverse of a rigid transform.
\<close>

fun pose_mul :: "pose \<Rightarrow> pose \<Rightarrow> pose" where
  "pose_mul (R1, t1) (R2, t2) = (mat_mul R1 R2, vadd (mat_vec R1 t2) t1)"

fun InvertTransform :: "pose \<Rightarrow> pose" where
  "InvertTransform (R, t) =
     (mat_transpose R, vscale (- 1) (mat_vec (mat_transpose R) t))"

definition pose_id :: pose where
  "pose_id = (mat_id, vzero)"

text \<open>
  A submap, as far as the global map reads it: the stamp of its anchor, the initial
  anchor pose and the current one. \<^verbatim>\<open>Position()\<close> and \<^verbatim>\<open>Orientation()\<close> are the
  stamped variables of the current anchor pose.
\<close>

record Submap =
  submap_stamp :: time
  T_WORLD_SUBMAP_INIT :: pose
  T_WORLD_SUBMAP :: pose

definition Submap_Position :: "Submap \<Rightarrow> Position3DStamped" where
  "Submap_Position sm = Position3DStamped (submap_stamp sm) (snd (T_WORLD_SUBMAP sm))"

definition Submap_Orientation :: "Submap \<Rightarrow> Orientation3DStamped" where
  "Submap_Orientation sm = Orientation3DStamped (submap_stamp sm) (fst (T_WORLD_SUBMAP sm))"

text \<open>
  Modelled from the spec: the constructor \<^verbatim>\<open>Submap(stamp, T_WORLD_BASELINK, ...)\<close>, whose
  source file is not among the sources. A submap has an anchor pose with an initial and a
  current value and the stamp of its anchor keyframe; a new submap is anchored at the
  pose that opened it.
\<close>

definition Submap_new :: "time \<Rightarrow> pose \<Rightarrow> Submap" where
  "Submap_new stamp T_WORLD_BASELINK =
     \<lparr>submap_stamp = stamp, T_WORLD_SUBMAP_INIT = T_WORLD_BASELINK,
      T_WORLD_SUBMAP = T_WORLD_BASELINK\<rparr>"

datatype SubmapType = ONLINE | OFFLINE | NONE

type_synonym cloud = "vec3 list"

record LidarMeasurement =
  lidar_points :: cloud
  lidar_edges_strong :: cloud
  lidar_surfaces_strong :: cloud
  lidar_edges_weak :: cloud
  lidar_surfaces_weak :: cloud

text \<open>
  The collaborators of the global map whose code is not in the repository sources.
  \<^verbatim>\<open>FindRelocCandidates\<close> receives the submaps, the query pose, the two optional trailing
  arguments when the call passes them, and the current contents of the two output
  vectors; it returns their new contents. \<^verbatim>\<open>GenerateTransaction\<close> and
  \<^verbatim>\<open>GetRefinedPose\<close> return None for the null pointer and for \<open>false\<close>.
\<close>

record gm_ext =
  FindRelocCandidates ::
    "Submap list \<Rightarrow> pose \<Rightarrow> (nat \<times> bool) option \<Rightarrow> int list \<times> pose list
       \<Rightarrow> int list \<times> pose list"
  GenerateTransaction :: "Submap \<Rightarrow> Submap \<Rightarrow> pose \<Rightarrow> Transaction option"
  GetRefinedPose :: "pose \<Rightarrow> Submap \<Rightarrow> LidarMeasurement \<Rightarrow> pose option"

record GlobalMap =
  online_submaps :: "Submap list"
  offline_submaps :: "Submap list"
  submap_size :: real
  local_mapper_covariance :: covariance
  pose_prior_noise :: real
  active_submap_id :: int
  active_submap_type :: SubmapType
  T_WORLDLM_WORLDOFF :: pose
  T_WORLDLM_WORLDOFF_found :: bool

text \<open>\<^verbatim>\<open>std::vector::at\<close> with an \<^verbatim>\<open>int\<close> index: it throws outside the vector.\<close>

definition vector_at :: "'a list \<Rightarrow> int \<Rightarrow> fault + 'a" where
  "vector_at xs i = (if 0 \<le> i \<and> nat i < length xs then Inr (xs ! nat i) else Inl OutOfRange)"

definition GetSubmapId :: "GlobalMap \<Rightarrow> pose \<Rightarrow> int" where
  "GetSubmapId g T_WORLD_BASELINK =
     (if online_submaps g = [] then 0
      else
        (let t_WORLD_FRAME = snd T_WORLD_BASELINK;
             t_WORLD_SUBMAPCUR =
               snd (T_WORLD_SUBMAP_INIT (online_submaps g ! (length (online_submaps g) - 1)))
         in if length (online_submaps g) = 1
            then (if vnorm (vsub t_WORLD_FRAME t_WORLD_SUBMAPCUR) < submap_size g then 0 else 1)
            else
              (let t_WORLD_SUBMAPPREV =
                     snd (T_WORLD_SUBMAP_INIT
                            (online_submaps g ! (length (online_submaps g) - 2)))
               in if vnorm (vsub t_WORLD_FRAME t_WORLD_SUBMAPPREV) < submap_size g
                  then int (length (online_submaps g)) - 2
                  else if vnorm (vsub t_WORLD_FRAME t_WORLD_SUBMAPCUR) < submap_size g
                  then int (length (online_submaps g)) - 1
                  else int (length (online_submaps g)))))"

text \<open>
  \<^verbatim>\<open>InitiateNewSubmapPose\<close>. The transaction is constructed with the stamp alone, so
  with the default override flags, \<open>true\<close> in the base class. The overload of
  \<^verbatim>\<open>AddPoseConstraint\<close> it calls takes the relative pose as one vector; it builds the
  same relative-pose constraint as the overloads above.
\<close>

definition InitiateNewSubmapPose :: "GlobalMap \<Rightarrow> fault + Transaction option" where
  "InitiateNewSubmapPose g =
     (case vector_at (online_submaps g) (int (length (online_submaps g)) - 1) of
        Inl e \<Rightarrow> Inl e
      | Inr current_submap \<Rightarrow>
        (let tx0 = AddPoseVariables (Submap_Position current_submap)
                     (Submap_Orientation current_submap) (submap_stamp current_submap)
                     (PoseTransaction_new (submap_stamp current_submap) True True)
         in if length (online_submaps g) = 1
            then Inr (GetTransaction
                        (AddPosePrior_noise (Submap_Position current_submap)
                           (Submap_Orientation current_submap) (pose_prior_noise g)
                           ''GlobalMap'' tx0))
            else
              (case vector_at (online_submaps g) (int (length (online_submaps g)) - 2) of
                 Inl e \<Rightarrow> Inl e
               | Inr previous_submap \<Rightarrow>
                 (let T_PREVIOUS_CURRENT =
                        pose_mul (InvertTransform (T_WORLD_SUBMAP previous_submap))
                                 (T_WORLD_SUBMAP current_submap)
                  in Inr (GetTransaction
                            (AddConstraint
                               (RelativePose3DStampedConstraint ''GlobalMap''
                                  (Submap_Position previous_submap)
                                  (Submap_Orientation previous_submap)
                                  (Submap_Position current_submap)
                                  (Submap_Orientation current_submap)
                                  T_PREVIOUS_CURRENT (local_mapper_covariance g))
                               tx0))))))"

text \<open>
  The refinement loop of \<^verbatim>\<open>RunLoopClosure\<close> over the filtered candidates, from index
  \<open>i\<close> on. It carries the merged transaction and the log of the calls of
  \<^verbatim>\<open>GenerateTransaction\<close>: the matched index and the estimate passed. The estimate is
  read with \<^verbatim>\<open>operator[]\<close> at the position in the filtered list.
\<close>

fun refine_candidates ::
  "gm_ext \<Rightarrow> Submap list \<Rightarrow> int \<Rightarrow> int list \<Rightarrow> pose list \<Rightarrow> nat \<Rightarrow> Transaction
     \<Rightarrow> (int \<times> pose) list \<Rightarrow> fault + (Transaction \<times> (int \<times> pose) list)" where
  "refine_candidates ext subs query_index [] Ts i tx calls = Inr (tx, calls)"
| "refine_candidates ext subs query_index (m # ms) Ts i tx calls =
     (if m = query_index + 1 \<or> m = query_index - 1
      then refine_candidates ext subs query_index ms Ts (i + 1) tx calls
      else
        (case vector_at subs m of
           Inl e \<Rightarrow> Inl e
         | Inr matched \<Rightarrow>
           (case vector_at subs query_index of
              Inl e \<Rightarrow> Inl e
            | Inr query \<Rightarrow>
              if i < length Ts
              then refine_candidates ext subs query_index ms Ts (i + 1)
                     (case GenerateTransaction ext matched query (Ts ! i) of
                        None \<Rightarrow> tx
                      | Some new_transaction \<Rightarrow> merge tx new_transaction)
                     (calls @ [(m, Ts ! i)])
              else Inl IndexOutOfBounds)))"

definition RunLoopClosure ::
  "gm_ext \<Rightarrow> GlobalMap \<Rightarrow> int
     \<Rightarrow> fault + (GlobalMap \<times> Transaction option \<times> (int \<times> pose) list)" where
  "RunLoopClosure ext g query_index =
     (if length (online_submaps g) = 1 then Inr (g, None, [])
      else
        (case vector_at (online_submaps g) query_index of
           Inl e \<Rightarrow> Inl e
         | Inr query \<Rightarrow>
           (case FindRelocCandidates ext (online_submaps g) (T_WORLD_SUBMAP query) None ([], []) of
              (matched_indices, Ts_MATCH_QUERY) \<Rightarrow>
                (let matched_indices_filtered =
                       filter (\<lambda>i. \<not> (i = query_index \<or> i = query_index - 1)) matched_indices
                 in if matched_indices_filtered = [] then Inr (g, None, [])
                    else
                      (case refine_candidates ext (online_submaps g) query_index
                              matched_indices_filtered Ts_MATCH_QUERY 0 Transaction_new [] of
                         Inl e \<Rightarrow> Inl e
                       | Inr (tx, calls) \<Rightarrow>
                           Inr (if length (added_constraints tx) > 0
                                then g\<lparr>active_submap_type := NONE\<rparr> else g,
                                Some tx, calls))))))"

text \<open>
  \<^verbatim>\<open>AddMeasurement\<close>, up to the choice and creation of the submap the measurement goes
  to: the new state, the transaction returned and the submap id. The measurement is then
  stored in \<^verbatim>\<open>online_submaps_.at(submap_id)\<close>; the queue of maps to publish is left out.
\<close>

definition AddMeasurement ::
  "gm_ext \<Rightarrow> GlobalMap \<Rightarrow> pose \<Rightarrow> time \<Rightarrow> fault + (GlobalMap \<times> Transaction option \<times> int)" where
  "AddMeasurement ext g T_WORLD_BASELINK stamp =
     (let submap_id = GetSubmapId g T_WORLD_BASELINK
      in if submap_id = int (length (online_submaps g))
         then
           (let g1 = g\<lparr>online_submaps := online_submaps g @ [Submap_new stamp T_WORLD_BASELINK]\<rparr>
            in case InitiateNewSubmapPose g1 of
                 Inl e \<Rightarrow> Inl e
               | Inr new_transaction \<Rightarrow>
                 (case RunLoopClosure ext g1 (int (length (online_submaps g1)) - 2) of
                    Inl e \<Rightarrow> Inl e
                  | Inr (g2, reloc_transaction, calls) \<Rightarrow>
                    (case reloc_transaction of
                       None \<Rightarrow> Inr (g2, new_transaction, submap_id)
                     | Some r \<Rightarrow>
                       (case new_transaction of
                          None \<Rightarrow> Inl NullDereference
                        | Some n \<Rightarrow> Inr (g2, Some (merge n r), submap_id)))))
         else Inr (g, None, submap_id))"

text \<open>
  A relocalization request and the submap message sent back: the submap whose clouds
  are sent, whether they are taken in the frame of the initial anchor, and the transform
  applied to them.
\<close>

record RelocRequestMsg =
  req_T_WORLD_BASELINK :: pose
  req_lidar_measurement :: LidarMeasurement

record SubmapMsg =
  msg_submap :: Submap
  msg_use_initial :: bool
  msg_T :: pose

text \<open>
  The candidate loops of \<^verbatim>\<open>ProcessRelocRequest\<close>, from candidate \<open>i\<close> on. The result
  is None when the loop ends without returning, and otherwise the state with None for
  \<^verbatim>\<open>return false\<close> and the message filled for \<^verbatim>\<open>return true\<close>. The counter of the
  source is a \<^verbatim>\<open>uint16_t\<close>; the model follows it for fewer than 65536 candidates.
\<close>

fun reloc_offline_loop ::
  "gm_ext \<Rightarrow> GlobalMap \<Rightarrow> RelocRequestMsg \<Rightarrow> int list \<Rightarrow> pose list \<Rightarrow> nat
     \<Rightarrow> fault + (GlobalMap \<times> SubmapMsg option) option" where
  "reloc_offline_loop ext g req [] Ts i = Inr None"
| "reloc_offline_loop ext g req (submap_index # rest) Ts i =
     (if \<not> i < length Ts then Inl OutOfRange
      else if active_submap_id g = submap_index \<and> active_submap_type g = OFFLINE
      then Inr (Some (g, None))
      else
        (case vector_at (offline_submaps g) submap_index of
           Inl e \<Rightarrow> Inl e
         | Inr submap \<Rightarrow>
           (case GetRefinedPose ext (Ts ! i) submap (req_lidar_measurement req) of
              Some T_SUBMAP_QUERY_refined \<Rightarrow>
                (let g1 = (if \<not> T_WORLDLM_WORLDOFF_found g
                           then g\<lparr>T_WORLDLM_WORLDOFF :=
                                    pose_mul (pose_mul (req_T_WORLD_BASELINK req)
                                                (InvertTransform T_SUBMAP_QUERY_refined))
                                             (InvertTransform (T_WORLD_SUBMAP submap)),
                                  T_WORLDLM_WORLDOFF_found := True\<rparr>
                           else g)
                 in Inr (Some (g1\<lparr>active_submap_id := submap_index,
                                  active_submap_type := OFFLINE\<rparr>,
                               Some \<lparr>msg_submap = submap, msg_use_initial = False,
                                     msg_T = T_WORLDLM_WORLDOFF g1\<rparr>)))
            | None \<Rightarrow> reloc_offline_loop ext g req rest Ts (i + 1))))"

fun reloc_online_loop ::
  "gm_ext \<Rightarrow> GlobalMap \<Rightarrow> RelocRequestMsg \<Rightarrow> int list \<Rightarrow> pose list \<Rightarrow> nat
     \<Rightarrow> fault + (GlobalMap \<times> SubmapMsg option) option" where
  "reloc_online_loop ext g req [] Ts i = Inr None"
| "reloc_online_loop ext g req (submap_index # rest) Ts i =
     (if \<not> i < length Ts then Inl OutOfRange
      else if active_submap_id g = submap_index \<and> active_submap_type g = ONLINE
      then Inr (Some (g, None))
      else
        (case vector_at (online_submaps g) submap_index of
           Inl e \<Rightarrow> Inl e
         | Inr submap \<Rightarrow>
           (case GetRefinedPose ext (Ts ! i) submap (req_lidar_measurement req) of
              Some T_SUBMAP_QUERY_refined \<Rightarrow>
                Inr (Some (g\<lparr>active_submap_id := submap_index,
                             active_submap_type := OFFLINE\<rparr>,
                           Some \<lparr>msg_submap = submap, msg_use_initial = True,
                                 msg_T = pose_id\<rparr>))
            | None \<Rightarrow> reloc_online_loop ext g req rest Ts (i + 1))))"

definition ProcessRelocRequest ::
  "gm_ext \<Rightarrow> GlobalMap \<Rightarrow> RelocRequestMsg \<Rightarrow> fault + (GlobalMap \<times> SubmapMsg option)" where
  "ProcessRelocRequest ext g req =
     (let T_WORLDLM_QUERY = req_T_WORLD_BASELINK req;
          found_offline =
            (if offline_submaps g \<noteq> []
             then FindRelocCandidates ext (offline_submaps g)
                    (pose_mul (InvertTransform (T_WORLDLM_WORLDOFF g)) T_WORLDLM_QUERY)
                    None ([], [])
             else ([], []))
      in case (if offline_submaps g \<noteq> []
               then reloc_offline_loop ext g req (fst found_offline) (snd found_offline) 0
               else Inr None) of
           Inl e \<Rightarrow> Inl e
         | Inr (Some r) \<Rightarrow> Inr r
         | Inr None \<Rightarrow>
           (if online_submaps g \<noteq> []
            then
              (let found_online = FindRelocCandidates ext (online_submaps g) T_WORLDLM_QUERY
                                    (Some (2, True)) found_offline
               in case reloc_online_loop ext g req (fst found_online) (snd found_online) 0 of
                    Inl e \<Rightarrow> Inl e
                  | Inr (Some r) \<Rightarrow> Inr r
                  | Inr None \<Rightarrow> Inr (g, None))
            else Inr (g, None)))"


text \<open>The distance from the position of a pose to the initial anchor position of a submap.\<close>

definition anchor_distance :: "Submap \<Rightarrow> pose \<Rightarrow> real" where
  "anchor_distance sm T_WORLD_BASELINK =
     vnorm (vsub (snd T_WORLD_BASELINK) (snd (T_WORLD_SUBMAP_INIT sm)))"

text \<open>
  The transaction obtained by merging, in order, what \<^verbatim>\<open>GenerateTransaction\<close> returns for
  each logged call, into a new transaction.
\<close>

definition merge_refinements :: "gm_ext \<Rightarrow> Submap list \<Rightarrow> int \<Rightarrow> (int \<times> pose) list \<Rightarrow> Transaction" where
  "merge_refinements ext subs query_index calls =
     foldl (\<lambda>tx (m, T).
              case GenerateTransaction ext (subs ! nat m) (subs ! nat query_index) T of
                None \<Rightarrow> tx
              | Some new_transaction \<Rightarrow> merge tx new_transaction)
       Transaction_new calls"

subsection \<open>Concrete inputs for the global map\<close>

text \<open>
  Submaps anchored on the x axis, a global map with \<open>submap_size = 10\<close>, a request, and
  one instance of the collaborators: the candidate search returns the given indices with
  identity estimates, and the refinement always succeeds and returns one relative-pose
  constraint between the matched and the query submap.
\<close>

definition demo_submap :: "time \<Rightarrow> real \<Rightarrow> Submap" where
  "demo_submap stamp x = Submap_new stamp (mat_id, (x, 0, 0))"

definition demo_gm_ext :: "int list \<Rightarrow> gm_ext" where
  "demo_gm_ext candidates =
     \<lparr>FindRelocCandidates = (\<lambda>subs T opts acc. (candidates, map (\<lambda>m. pose_id) candidates)),
      GenerateTransaction = (\<lambda>matched query T.
         GetTransaction (AddPoseConstraint_T (T_WORLD_SUBMAP matched) (T_WORLD_SUBMAP query)
                           (submap_stamp matched) (submap_stamp query) T (diag6 1) ''RELOC''
                           (PoseTransaction_new (submap_stamp query) True True))),
      GetRefinedPose = (\<lambda>T sm meas. Some T)\<rparr>"

definition demo_map :: "Submap list \<Rightarrow> GlobalMap" where
  "demo_map subs =
     \<lparr>online_submaps = subs, offline_submaps = [], submap_size = 10,
      local_mapper_covariance = diag6 1, pose_prior_noise = 1,
      active_submap_id = 0, active_submap_type = NONE,
      T_WORLDLM_WORLDOFF = pose_id, T_WORLDLM_WORLDOFF_found = False\<rparr>"

definition demo_request :: "real \<Rightarrow> RelocRequestMsg" where
  "demo_request x =
     \<lparr>req_T_WORLD_BASELINK = (mat_id, (x, 0, 0)),
      req_lidar_measurement = \<lparr>lidar_points = [], lidar_edges_strong = [],
         lidar_surfaces_strong = [], lidar_edges_weak = [], lidar_surfaces_weak = []\<rparr>\<rparr>"

section \<open>Keyframe selection (beam\_models, visual\_inertial\_odom.cpp)\<close>

text \<open>
  \<^verbatim>\<open>tracker_->Get(t, id)\<close> is the pixel of landmark \<open>id\<close> in the image stamped \<open>t\<close>;
  it throws \<^verbatim>\<open>std::out_of_range\<close> (None) when the landmark is not tracked there.
  \<^verbatim>\<open>beam::distance\<close> is the Euclidean distance of libbeam.
\<close>

type_synonym pixel = "real \<times> real"
type_synonym tracker = "time \<Rightarrow> nat \<Rightarrow> pixel option"

fun distance :: "pixel \<Rightarrow> pixel \<Rightarrow> real" where
  "distance (x1, y1) (x2, y2) = sqrt ((x1 - x2)\<^sup>2 + (y1 - y2)\<^sup>2)"

text \<open>
  The members \<^verbatim>\<open>IsKeyframe\<close> reads. \<^verbatim>\<open>added_since_kf_\<close> is a \<^verbatim>\<open>uint32_t\<close>. The
  declarations of \<^verbatim>\<open>camera_params_\<close> are not among the sources: \<^verbatim>\<open>window_size\<close> is
  taken as a 32-bit integer, so that \<^verbatim>\<open>window_size - 1\<close> compared with a \<^verbatim>\<open>uint32_t\<close>
  is the subtraction modulo \<open>2\<^sup>3\<^sup>2\<close>, \<^verbatim>\<open>keyframe_tracks_drop\<close> as a count, and the two
  thresholds as reals.
\<close>

record VisualInertialOdom =
  vio_tracker :: tracker
  cur_kf_time :: time
  added_since_kf :: "32 word"
  keyframe_min_time_in_seconds :: real
  keyframe_parallax :: real
  keyframe_tracks_drop :: nat
  window_size :: "32 word"

text \<open>
  The loop of \<^verbatim>\<open>ComputeAvgParallax\<close>: a landmark missing in either image throws before
  anything is added, and the exception is swallowed.
\<close>

fun parallax_loop :: "tracker \<Rightarrow> time \<Rightarrow> time \<Rightarrow> nat list \<Rightarrow> real \<Rightarrow> int \<Rightarrow> real \<times> int" where
  "parallax_loop tr t1 t2 [] total_parallax num_matches = (total_parallax, num_matches)"
| "parallax_loop tr t1 t2 (i # ids) total_parallax num_matches =
     (case tr t1 i of
        None \<Rightarrow> parallax_loop tr t1 t2 ids total_parallax num_matches
      | Some p1 \<Rightarrow>
        (case tr t2 i of
           None \<Rightarrow> parallax_loop tr t1 t2 ids total_parallax num_matches
         | Some p2 \<Rightarrow>
             parallax_loop tr t1 t2 ids (total_parallax + distance p1 p2) (num_matches + 1)))"

text \<open>
  The quotient \<^verbatim>\<open>total_parallax / (double)num_matches\<close>. With no match it is
  \<open>0.0 / 0\<close>, the NaN of the doubles: None.
\<close>

definition ComputeAvgParallax :: "tracker \<Rightarrow> time \<Rightarrow> time \<Rightarrow> nat list \<Rightarrow> real option" where
  "ComputeAvgParallax tr t1 t2 t2_landmarks =
     (case parallax_loop tr t1 t2 t2_landmarks 0 0 of
        (total_parallax, num_matches) \<Rightarrow>
          if num_matches = 0 then None else Some (total_parallax / real_of_int num_matches))"

text \<open>\<^verbatim>\<open>x > y\<close> on doubles: false when \<open>x\<close> is NaN.\<close>

definition double_greater :: "real option \<Rightarrow> real \<Rightarrow> bool" where
  "double_greater x y = (case x of None \<Rightarrow> False | Some v \<Rightarrow> v > y)"

definition IsKeyframe :: "VisualInertialOdom \<Rightarrow> time \<Rightarrow> nat list \<Rightarrow> nat list \<Rightarrow> bool" where
  "IsKeyframe v img_time triangulated_ids untriangulated_ids =
     (if toSec (img_time - cur_kf_time v) \<ge> keyframe_min_time_in_seconds v
      then
        (let all_ids = triangulated_ids @ untriangulated_ids;
             avg_parallax = ComputeAvgParallax (vio_tracker v) (cur_kf_time v) img_time all_ids
         in if double_greater avg_parallax (keyframe_parallax v) \<or>
               length triangulated_ids < keyframe_tracks_drop v
            then True
            else if added_since_kf v = window_size v - 1 then True
            else False)
      else False)"

text \<open>
  The keyframe rule in the words of the specification. The landmarks of a set that
  are seen in both images, the parallax of one of them, and "the mean parallax over the
  set exceeds \<open>\<theta>\<close>": some landmark is seen in both images and the mean of the
  parallaxes of those that are is greater than \<open>\<theta>\<close>.
\<close>

definition seen_in_both :: "tracker \<Rightarrow> time \<Rightarrow> time \<Rightarrow> nat \<Rightarrow> bool" where
  "seen_in_both tr t1 t2 i = (tr t1 i \<noteq> None \<and> tr t2 i \<noteq> None)"

definition parallax_of :: "tracker \<Rightarrow> time \<Rightarrow> time \<Rightarrow> nat \<Rightarrow> real" where
  "parallax_of tr t1 t2 i =
     (case (tr t1 i, tr t2 i) of (Some p1, Some p2) \<Rightarrow> distance p1 p2 | _ \<Rightarrow> 0)"

definition mean_parallax_exceeds :: "tracker \<Rightarrow> time \<Rightarrow> time \<Rightarrow> nat set \<Rightarrow> real \<Rightarrow> bool" where
  "mean_parallax_exceeds tr t1 t2 ids theta =
     (Set.filter (seen_in_both tr t1 t2) ids \<noteq> {} \<and>
      sum (parallax_of tr t1 t2) (Set.filter (seen_in_both tr t1 t2) ids)
        / real (card (Set.filter (seen_in_both tr t1 t2) ids)) > theta)"

definition spec_is_keyframe :: "VisualInertialOdom \<Rightarrow> time \<Rightarrow> nat list \<Rightarrow> nat list \<Rightarrow> bool" where
  "spec_is_keyframe v stamp triangulated untriangulated =
     (toSec (stamp - cur_kf_time v) \<ge> keyframe_min_time_in_seconds v \<and>
      (mean_parallax_exceeds (vio_tracker v) (cur_kf_time v) stamp
         (set triangulated \<union> set untriangulated) (keyframe_parallax v) \<or>
       length triangulated < keyframe_tracks_drop v \<or>
       added_since_kf v = window_size v - 1))"


subsection \<open>Concrete inputs for the keyframe rule\<close>

text \<open>
  A tracker with landmarks 4 and 5 seen at times 0 and 2 s, each moved by \<open>(3, 4)\<close>, and
  landmark 6 seen at 2 s only: the mean parallax between the two images is 5.
\<close>

definition demo_tracker :: tracker where
  "demo_tracker t i =
     (if t = 0 \<and> i = 4 then Some (0, 0)
      else if t = 0 \<and> i = 5 then Some (10, 10)
      else if t = 2000000000 \<and> i = 4 then Some (3, 4)
      else if t = 2000000000 \<and> i = 5 then Some (13, 14)
      else if t = 2000000000 \<and> i = 6 then Some (7, 7)
      else None)"

definition demo_vio :: "real \<Rightarrow> nat \<Rightarrow> 32 word \<Rightarrow> VisualInertialOdom" where
  "demo_vio parallax tracks_drop added =
     \<lparr>vio_tracker = demo_tracker, cur_kf_time = 0, added_since_kf = added,
      keyframe_min_time_in_seconds = 1, keyframe_parallax = parallax,
      keyframe_tracks_drop = tracks_drop, window_size = 10\<rparr>"

section \<open>Properties of the IMU preintegrator\<close>

lemmas imu_demo_defs = RegisterNewImuPreintegratedFactor_def GetPose_def
  demo_imu_def imu_sample_def demo_ext_def GetTransaction_imu_def rest_state_def
  ResetPreintegrator_def Let_def PredictState_def zero_Delta_def

lemma populate_Register_result:
  "populate_Register t xs = Inr (rest, moved) \<Longrightarrow>
     moved = takeWhile (\<lambda>d. imu_t d < t) xs \<and> rest = dropWhile (\<lambda>d. imu_t d < t) xs \<and>
     rest \<noteq> [] \<and> t \<le> imu_t (hd rest)"
  by (induction xs arbitrary: rest moved) (auto split: if_splits sum.splits)

lemma mat_mul_id_right: "mat_mul A mat_id = A"
  by (cases A rule: prod_cases3; cases "fst A" rule: prod_cases3)
     (auto simp: mat_mul_def mat_id_def)

lemma vdot_zero_right: "vdot x (0, 0, 0) = 0"
  by (cases x rule: prod_cases3) simp

lemma mat_vec_zero_right: "mat_vec A (0, 0, 0) = (0, 0, 0)"
  by (cases A rule: prod_cases3) (simp add: vdot_zero_right)

lemma PredictState_Stamp: "t_now \<noteq> 0 \<Longrightarrow> Stamp (PredictState ext pre st t_now) = t_now"
  by (simp add: PredictState_def Let_def)

text \<open>\<^verbatim>\<open>PredictState\<close> computes the predicted state of the specification.\<close>

lemma PredictState_spec:
  "PredictState ext pre st t_now =
     spec_predicted_state (GRAVITY_WORLD ext) (delta pre) st
       (if t_now \<noteq> 0 then t_now else Stamp st + delta_t (delta pre))"
proof -
  obtain g1 g2 g3 where g: "GRAVITY_WORLD ext = (g1, g2, g3)"
    by (cases "GRAVITY_WORLD ext")
  obtain a1 a2 a3 where a: "mat_vec (Orientation st) (delta_v (delta pre)) = (a1, a2, a3)"
    by (cases "mat_vec (Orientation st) (delta_v (delta pre))")
  obtain b1 b2 b3 where b: "mat_vec (Orientation st) (delta_p (delta pre)) = (b1, b2, b3)"
    by (cases "mat_vec (Orientation st) (delta_p (delta pre))")
  show ?thesis
  proof (cases "Velocity st")
    case NonFinite
    then show ?thesis
      by (cases "Position st")
         (simp_all add: PredictState_def spec_predicted_state_def Let_def g a b)
  next
    case (Finite v)
    obtain v1 v2 v3 where v: "v = (v1, v2, v3)" by (cases v)
    show ?thesis
    proof (cases "Position st")
      case NonFinite
      then show ?thesis
        using Finite v
        by (simp add: PredictState_def spec_predicted_state_def Let_def g a b toSec_def
              algebra_simps)
    next
      case (Finite p)
      obtain p1 p2 p3 where p: "p = (p1, p2, p3)" by (cases p)
      show ?thesis
        using Finite \<open>Velocity st = Finite v\<close> v p
        by (simp add: PredictState_def spec_predicted_state_def Let_def g a b toSec_def
              power2_eq_square algebra_simps)
    qed
  qed
qed

lemma PredictState_zero_Delta:
  assumes "delta pre = zero_Delta" and "t_now = 0 \<or> Stamp st = t_now"
      and "Position st = Finite p" and "Velocity st = Finite v"
  shows "PredictState ext pre st t_now = st"
proof -
  obtain g1 g2 g3 where g: "GRAVITY_WORLD ext = (g1, g2, g3)" by (cases "GRAVITY_WORLD ext")
  obtain v1 v2 v3 where v: "v = (v1, v2, v3)" by (cases v)
  obtain p1 p2 p3 where p: "p = (p1, p2, p3)" by (cases p)
  show ?thesis
    using assms g v p
    by (intro ImuState.equality)
       (auto simp: PredictState_def Let_def zero_Delta_def toSec_def mat_mul_id_right
                   mat_vec_zero_right vzero_def)
qed

lemma PredictState_zero_Delta_NonFinite:
  assumes "delta pre = zero_Delta"
      and "Position st = NonFinite \<or> Velocity st = NonFinite"
  shows "Orientation (PredictState ext pre st t_now) = Orientation st \<and>
         Position (PredictState ext pre st t_now) = NonFinite"
  using assms
  by (cases "Position st"; cases "Velocity st")
     (auto simp: PredictState_def Let_def zero_Delta_def mat_mul_id_right)

text \<open>What a call of the registration that returns a transaction has done.\<close>

lemma Register_success_cases:
  assumes "RegisterNewImuPreintegratedFactor ext s t_now R_opt p_opt = Inr (s', Some tx)"
  obtains d ds rest moved where
    "current_imu_data_buffer s = d # ds" "\<not> t_now < imu_t d"
    "populate_Register t_now (d # ds) = Inr (rest, moved)"
    "imu_state_i s' =
       (case (R_opt, p_opt) of
          (Some R, Some p) \<Rightarrow>
            (PredictState ext
               (Integrate ext ((pre_integrator_ij s)\<lparr>data := data (pre_integrator_ij s) @ moved\<rparr>)
                  t_now (GyroBias (imu_state_i s)) (AccelBias (imu_state_i s)) True True)
               (imu_state_i s) t_now)
              \<lparr>Orientation := R, Position := Finite p,
                Velocity := ddiv (dsub (Finite p) (Position (imu_state_i s)))
                                 (Time_toSec ext t_now - Time_toSec ext (Stamp (imu_state_i s)))\<rparr>
        | _ \<Rightarrow> PredictState ext
               (Integrate ext ((pre_integrator_ij s)\<lparr>data := data (pre_integrator_ij s) @ moved\<rparr>)
                  t_now (GyroBias (imu_state_i s)) (AccelBias (imu_state_i s)) True True)
               (imu_state_i s) t_now)"
    "imu_state_k s' = imu_state_i s'"
    "current_imu_data_buffer s' = rest"
  using assms
  by (auto simp: RegisterNewImuPreintegratedFactor_def Let_def ResetPreintegrator_def
           split: list.splits if_splits sum.splits prod.splits option.splits)

text \<open>
  C3, as the code has it: \<^verbatim>\<open>AddToBuffer\<close> appends every sample to the back of both
  buffers. It compares no stamps and rejects nothing.
\<close>

theorem AddToBuffer_appends:
  "current_imu_data_buffer (AddToBuffer s imu_data) = current_imu_data_buffer s @ [imu_data] \<and>
   total_imu_data_buffer (AddToBuffer s imu_data) = total_imu_data_buffer s @ [imu_data]"
  by (simp add: AddToBuffer_def)

text \<open>
  C3, as stated, fails: with a sample stamped 5 stored, pushing a sample stamped 3 stores
  it behind the first in both buffers, and the stored stamps are no longer increasing.
\<close>

theorem AddToBuffer_out_of_order_counterexample:
  "map imu_t (current_imu_data_buffer (AddToBuffer (demo_imu [imu_sample 5]) (imu_sample 3)))
     = [5, 3] \<and>
   map imu_t (total_imu_data_buffer (AddToBuffer (demo_imu [imu_sample 5]) (imu_sample 3)))
     = [5, 3] \<and>
   \<not> sorted_wrt (<) (map imu_t (current_imu_data_buffer
                                  (AddToBuffer (demo_imu [imu_sample 5]) (imu_sample 3))))"
  by (simp add: AddToBuffer_def demo_imu_def imu_sample_def)

text \<open>
  C7: when \<open>t_now\<close> precedes the stamp of the front sample of the current buffer,
  \<^verbatim>\<open>GetPose\<close> returns false and \<^verbatim>\<open>RegisterNewImuPreintegratedFactor\<close> returns the null
  transaction, and both leave the whole preintegrator state as it was.
\<close>

theorem not_ready_leaves_state_unchanged:
  assumes "current_imu_data_buffer s = d # ds" and "t_now < imu_t d"
  shows "GetPose ext s t_now = Inr (s, None) \<and>
         RegisterNewImuPreintegratedFactor ext s t_now R_WORLD_IMU t_WORLD_IMU = Inr (s, None)"
  using assms by (simp add: GetPose_def RegisterNewImuPreintegratedFactor_def)

text \<open>C7 on a buffer holding samples stamped 7 and 9, queried at 4.\<close>

theorem not_ready_leaves_state_unchanged_witness:
  "current_imu_data_buffer (demo_imu [imu_sample 7, imu_sample 9])
     = imu_sample 7 # [imu_sample 9] \<and>
   4 < imu_t (imu_sample 7) \<and>
   GetPose demo_ext (demo_imu [imu_sample 7, imu_sample 9]) 4
     = Inr (demo_imu [imu_sample 7, imu_sample 9], None) \<and>
   RegisterNewImuPreintegratedFactor demo_ext (demo_imu [imu_sample 7, imu_sample 9]) 4 None None
     = Inr (demo_imu [imu_sample 7, imu_sample 9], None)"
proof -
  have b: "current_imu_data_buffer (demo_imu [imu_sample 7, imu_sample 9])
             = imu_sample 7 # [imu_sample 9]"
    by (simp add: demo_imu_def)
  have l: "4 < imu_t (imu_sample 7)" by (simp add: imu_sample_def)
  from not_ready_leaves_state_unchanged [OF b l, of demo_ext None None] b l
  show ?thesis by simp
qed

text \<open>
  C10 fails on the code. With one buffered sample stamped 1 and a request at 2, the loop
  of the registration pops the sample and then evaluates its condition again, reading
  \<^verbatim>\<open>front()\<close> of the now empty queue before \<^verbatim>\<open>!empty()\<close> is tested; \<^verbatim>\<open>GetPose\<close> and
  \<^verbatim>\<open>SetStart\<close> do the same without an emptiness test. On empty buffers the first
  comparison of each operation already reads the front.
\<close>

theorem front_of_empty_queue_is_read:
  "RegisterNewImuPreintegratedFactor ext (demo_imu [imu_sample 1]) 2 None None
     = Inl FrontOfEmptyQueue \<and>
   GetPose ext (demo_imu [imu_sample 1]) 2 = Inl FrontOfEmptyQueue \<and>
   SetStart ext (demo_imu [imu_sample 1]) 2 None None None = Inl FrontOfEmptyQueue \<and>
   RegisterNewImuPreintegratedFactor ext (demo_imu []) 2 None None = Inl FrontOfEmptyQueue \<and>
   GetPose ext (demo_imu []) 2 = Inl FrontOfEmptyQueue \<and>
   SetStart ext (demo_imu []) 2 None None None = Inl FrontOfEmptyQueue"
  by (simp add: RegisterNewImuPreintegratedFactor_def GetPose_def SetStart_def
        demo_imu_def imu_sample_def)

text \<open>
  C8, as the code has it. A registration at \<open>t_now\<close> that returns a transaction rolls the
  anchor forward. Let \<open>D\<close> be the delta integrated from the samples collected so far
  followed by the buffered samples older than \<open>t_now\<close>. The new anchor is stamped
  \<open>t_now\<close>, unless \<open>t_now\<close> is \<^verbatim>\<open>ros::Time(0)\<close>, which \<^verbatim>\<open>PredictState\<close> reads as "no
  time given": then it is stamped with the stamp of state \<open>i\<close> plus the time of \<open>D\<close>. With
  both overrides it has the supplied orientation and position and the biases of state
  \<open>i\<close>, and its velocity is the chord \<open>(p\<^sub>j - p\<^sub>i) / (t\<^sub>j - t\<^sub>i)\<close> over the \<^verbatim>\<open>toSec()\<close>
  doubles of the two stamps, which is not finite when these are equal. With an override
  missing it is the predicted state of the specification for \<open>D\<close>.
\<close>

theorem register_rolls_anchor_forward:
  assumes ok: "RegisterNewImuPreintegratedFactor ext s t_now R_opt p_opt = Inr (s', Some tx)"
  shows "(let D = delta (Integrate ext
                          ((pre_integrator_ij s)\<lparr>data := data (pre_integrator_ij s) @
                               takeWhile (\<lambda>d. imu_t d < t_now) (current_imu_data_buffer s)\<rparr>)
                          t_now (GyroBias (imu_state_i s)) (AccelBias (imu_state_i s))
                          True True);
              t_new = (if t_now \<noteq> 0 then t_now else Stamp (imu_state_i s) + delta_t D);
              c = Time_toSec ext t_now - Time_toSec ext (Stamp (imu_state_i s))
          in case (R_opt, p_opt) of
               (Some R, Some p) \<Rightarrow>
                  Stamp (imu_state_i s') = t_new \<and>
                  Orientation (imu_state_i s') = R \<and>
                  Position (imu_state_i s') = Finite p \<and>
                  Velocity (imu_state_i s') =
                    (case Position (imu_state_i s) of
                       Finite p_i \<Rightarrow> if c = 0 then NonFinite else Finite (vdiv (vsub p p_i) c)
                     | NonFinite \<Rightarrow> NonFinite) \<and>
                  GyroBias (imu_state_i s') = GyroBias (imu_state_i s) \<and>
                  AccelBias (imu_state_i s') = AccelBias (imu_state_i s)
             | _ \<Rightarrow>
                  imu_state_i s' =
                    spec_predicted_state (GRAVITY_WORLD ext) D (imu_state_i s) t_new)"
proof -
  from ok obtain d ds rest moved where
    buf: "current_imu_data_buffer s = d # ds" and
    pop: "populate_Register t_now (d # ds) = Inr (rest, moved)" and
    st: "imu_state_i s' =
       (case (R_opt, p_opt) of
          (Some R, Some p) \<Rightarrow>
            (PredictState ext
               (Integrate ext ((pre_integrator_ij s)\<lparr>data := data (pre_integrator_ij s) @ moved\<rparr>)
                  t_now (GyroBias (imu_state_i s)) (AccelBias (imu_state_i s)) True True)
               (imu_state_i s) t_now)
              \<lparr>Orientation := R, Position := Finite p,
                Velocity := ddiv (dsub (Finite p) (Position (imu_state_i s)))
                                 (Time_toSec ext t_now - Time_toSec ext (Stamp (imu_state_i s)))\<rparr>
        | _ \<Rightarrow> PredictState ext
               (Integrate ext ((pre_integrator_ij s)\<lparr>data := data (pre_integrator_ij s) @ moved\<rparr>)
                  t_now (GyroBias (imu_state_i s)) (AccelBias (imu_state_i s)) True True)
               (imu_state_i s) t_now)"
    by (rule Register_success_cases)
  from pop have mv: "moved = takeWhile (\<lambda>d. imu_t d < t_now) (current_imu_data_buffer s)"
    using populate_Register_result buf by metis
  have chord: "ddiv (dsub (Finite p) q) c =
                 (case q of
                    Finite p_i \<Rightarrow> if c = 0 then NonFinite else Finite (vdiv (vsub p p_i) c)
                  | NonFinite \<Rightarrow> NonFinite)" for p q c
    by (cases q) simp_all
  show ?thesis
  proof (cases R_opt)
    case None
    then show ?thesis
      using st unfolding mv PredictState_spec by (simp add: Let_def)
  next
    case R: (Some R)
    show ?thesis
    proof (cases p_opt)
      case None
      with R show ?thesis
        using st unfolding mv PredictState_spec by (simp add: Let_def)
    next
      case (Some p)
      with R show ?thesis
        using st unfolding mv PredictState_spec
        by (simp add: Let_def spec_predicted_state_def chord)
    qed
  qed
qed

text \<open>
  C8 on three runs. Samples at 1 s and 3 s, anchor at rest at the origin at time 0,
  registration at 2 s with the identity orientation and the position \<open>(4, 0, 0)\<close>: the
  chord velocity is \<open>(2, 0, 0)\<close>. Anchor at rest at stamp 5 and a registration at stamp 5
  with the same overrides: the velocity is not finite. Anchor at rest at the origin at time
  0, gravity \<open>(0, 0, -9.81)\<close>, acceleration \<open>(1, 0, 9.81)\<close> held for 1 s and no override: the
  new anchor is at \<open>(0.5, 0, 0)\<close> with velocity \<open>(1, 0, 0)\<close>.
\<close>

theorem register_rolls_anchor_forward_witness:
  "(case RegisterNewImuPreintegratedFactor demo_ext
           (demo_imu [imu_sample 1000000000, imu_sample 3000000000]) 2000000000
           (Some mat_id) (Some (4, 0, 0)) of
      Inr (s', Some tx) \<Rightarrow>
        Orientation (imu_state_i s') = mat_id \<and> Position (imu_state_i s') = Finite (4, 0, 0) \<and>
        Velocity (imu_state_i s') = Finite (2, 0, 0) \<and> Stamp (imu_state_i s') = 2000000000
    | _ \<Rightarrow> False) \<and>
   (case RegisterNewImuPreintegratedFactor demo_ext (demo_imu_at 5 [imu_sample 5]) 5
           (Some mat_id) (Some (4, 0, 0)) of
      Inr (s', Some tx) \<Rightarrow>
        Position (imu_state_i s') = Finite (4, 0, 0) \<and> Velocity (imu_state_i s') = NonFinite \<and>
        Stamp (imu_state_i s') = 5
    | _ \<Rightarrow> False) \<and>
   (case RegisterNewImuPreintegratedFactor const_accel_ext
           (demo_imu [accel_sample 0 (1, 0, 981 / 100),
                      accel_sample 1000000000 (1, 0, 981 / 100)]) 1000000000 None None of
      Inr (s', Some tx) \<Rightarrow>
        imu_state_i s' =
          \<lparr>Stamp = 1000000000, Orientation = mat_id, Position = Finite (1 / 2, 0, 0),
           Velocity = Finite (1, 0, 0), GyroBias = vzero, AccelBias = vzero\<rparr>
    | _ \<Rightarrow> False)"
proof -
  obtain s1 tx1 where ok1: "RegisterNewImuPreintegratedFactor demo_ext
           (demo_imu [imu_sample 1000000000, imu_sample 3000000000]) 2000000000
           (Some mat_id) (Some (4, 0, 0)) = Inr (s1, Some tx1)"
    by (simp add: imu_demo_defs)
  from register_rolls_anchor_forward [OF ok1]
  have r1: "Orientation (imu_state_i s1) = mat_id \<and>
            Position (imu_state_i s1) = Finite (4, 0, 0) \<and>
            Velocity (imu_state_i s1) = Finite (2, 0, 0) \<and>
            Stamp (imu_state_i s1) = 2000000000"
    by (simp add: Let_def demo_imu_def demo_ext_def rest_state_def toSec_def vzero_def)
  obtain s2 tx2 where ok2: "RegisterNewImuPreintegratedFactor demo_ext
           (demo_imu_at 5 [imu_sample 5]) 5 (Some mat_id) (Some (4, 0, 0)) = Inr (s2, Some tx2)"
    by (simp add: imu_demo_defs demo_imu_at_def)
  from register_rolls_anchor_forward [OF ok2]
  have r2: "Position (imu_state_i s2) = Finite (4, 0, 0) \<and>
            Velocity (imu_state_i s2) = NonFinite \<and> Stamp (imu_state_i s2) = 5"
    by (simp add: Let_def demo_imu_at_def demo_imu_def demo_ext_def rest_state_def)
  obtain s3 tx3 where ok3: "RegisterNewImuPreintegratedFactor const_accel_ext
           (demo_imu [accel_sample 0 (1, 0, 981 / 100),
                      accel_sample 1000000000 (1, 0, 981 / 100)]) 1000000000 None None
             = Inr (s3, Some tx3)"
    by (simp add: imu_demo_defs const_accel_ext_def accel_sample_def)
  from register_rolls_anchor_forward [OF ok3]
  have r3: "imu_state_i s3 =
          \<lparr>Stamp = 1000000000, Orientation = mat_id, Position = Finite (1 / 2, 0, 0),
           Velocity = Finite (1, 0, 0), GyroBias = vzero, AccelBias = vzero\<rparr>"
    by (simp add: Let_def spec_predicted_state_def const_accel_ext_def demo_ext_def
          demo_imu_def accel_sample_def rest_state_def zero_Delta_def toSec_def
          mat_id_def mat_mul_def vzero_def power2_eq_square)
  show ?thesis
    using ok1 r1 ok2 r2 ok3 r3 by simp
qed

text \<open>
  C8, as stated, fails: a registration at \<^verbatim>\<open>ros::Time(0)\<close> with both overrides, on an
  anchor stamped 7 and a buffer whose front sample is stamped 0, returns a transaction
  and takes the supplied orientation and position, but the new anchor is stamped 7, not
  \<open>t\<^sub>j = 0\<close>.
\<close>

theorem register_at_Time0_counterexample:
  "(case RegisterNewImuPreintegratedFactor demo_ext
           (demo_imu_at 7 [imu_sample 0, imu_sample 9]) 0 (Some mat_id) (Some (4, 0, 0)) of
      Inr (s', Some tx) \<Rightarrow>
        Orientation (imu_state_i s') = mat_id \<and> Position (imu_state_i s') = Finite (4, 0, 0) \<and>
        Stamp (imu_state_i s') = 7
    | _ \<Rightarrow> False)"
  by (simp add: imu_demo_defs demo_imu_at_def)

text \<open>
  C1, as the code has it. After a registration at \<open>t\<^sub>j\<close> that returned a transaction, the
  current buffer is not empty and its front sample is stamped \<open>t\<^sub>j\<close> or later. If it is
  later, \<^verbatim>\<open>GetPose(t_j)\<close> returns false and changes nothing. If it is stamped \<open>t\<^sub>j\<close> and
  integrating no samples yields the zero delta, \<^verbatim>\<open>GetPose(t_j)\<close> returns true: with
  exactly the orientation and position of the committed anchor, changing nothing, when
  the position and velocity of the anchor are finite; and with a position that is not
  finite otherwise, as after a registration with both overrides at the stamp of state
  \<open>i\<close>, whose chord velocity is a quotient by zero.
\<close>

theorem GetPose_after_register:
  assumes ok: "RegisterNewImuPreintegratedFactor ext s t_j R_opt p_opt = Inr (s', Some tx)"
  shows "current_imu_data_buffer s' \<noteq> [] \<and>
         t_j \<le> imu_t (hd (current_imu_data_buffer s')) \<and>
         (t_j < imu_t (hd (current_imu_data_buffer s')) \<longrightarrow> GetPose ext s' t_j = Inr (s', None)) \<and>
         (t_j = imu_t (hd (current_imu_data_buffer s')) \<and>
          delta (Integrate ext (PreIntegrator_new ext) t_j (GyroBias (imu_state_i s'))
                   (AccelBias (imu_state_i s')) False False) = zero_Delta \<longrightarrow>
            (case (Position (imu_state_i s'), Velocity (imu_state_i s')) of
               (Finite p, Finite v) \<Rightarrow>
                 GetPose ext s' t_j = Inr (s', Some (Orientation (imu_state_i s'), Finite p))
             | _ \<Rightarrow>
                 map_sum id snd (GetPose ext s' t_j) =
                   Inr (Some (Orientation (imu_state_i s'), NonFinite))))"
proof -
  from ok obtain d ds rest moved where
    pop: "populate_Register t_j (d # ds) = Inr (rest, moved)" and
    st: "imu_state_i s' =
       (case (R_opt, p_opt) of
          (Some R, Some p) \<Rightarrow>
            (PredictState ext
               (Integrate ext ((pre_integrator_ij s)\<lparr>data := data (pre_integrator_ij s) @ moved\<rparr>)
                  t_j (GyroBias (imu_state_i s)) (AccelBias (imu_state_i s)) True True)
               (imu_state_i s) t_j)
              \<lparr>Orientation := R, Position := Finite p,
                Velocity := ddiv (dsub (Finite p) (Position (imu_state_i s)))
                                 (Time_toSec ext t_j - Time_toSec ext (Stamp (imu_state_i s)))\<rparr>
        | _ \<Rightarrow> PredictState ext
               (Integrate ext ((pre_integrator_ij s)\<lparr>data := data (pre_integrator_ij s) @ moved\<rparr>)
                  t_j (GyroBias (imu_state_i s)) (AccelBias (imu_state_i s)) True True)
               (imu_state_i s) t_j)" and
    k: "imu_state_k s' = imu_state_i s'" and
    cur: "current_imu_data_buffer s' = rest"
    by (rule Register_success_cases)
  from populate_Register_result [OF pop]
  have ne: "rest \<noteq> []" and le: "t_j \<le> imu_t (hd rest)" by blast+
  then obtain e es where rest: "rest = e # es" by (cases rest) auto
  have stamp: "t_j = 0 \<or> Stamp (imu_state_i s') = t_j"
    using st by (cases "t_j = 0") (auto simp: PredictState_Stamp split: option.splits)
  have later: "GetPose ext s' t_j = Inr (s', None)" if "t_j < imu_t e"
    using that cur rest by (simp add: GetPose_def)
  have same: "(case (Position (imu_state_i s'), Velocity (imu_state_i s')) of
               (Finite p, Finite v) \<Rightarrow>
                 GetPose ext s' t_j = Inr (s', Some (Orientation (imu_state_i s'), Finite p))
             | _ \<Rightarrow>
                 map_sum id snd (GetPose ext s' t_j) =
                   Inr (Some (Orientation (imu_state_i s'), NonFinite)))"
    if eq: "t_j = imu_t e" and
       z: "delta (Integrate ext (PreIntegrator_new ext) t_j (GyroBias (imu_state_i s'))
                   (AccelBias (imu_state_i s')) False False) = zero_Delta"
  proof (cases "\<exists>p v. Position (imu_state_i s') = Finite p \<and> Velocity (imu_state_i s') = Finite v")
    case True
    then obtain p v where
      pv: "Position (imu_state_i s') = Finite p" "Velocity (imu_state_i s') = Finite v"
      by blast
    have "PredictState ext
            (Integrate ext (PreIntegrator_new ext) t_j (GyroBias (imu_state_i s'))
               (AccelBias (imu_state_i s')) False False) (imu_state_k s') t_j = imu_state_i s'"
      using PredictState_zero_Delta [OF z, where st = "imu_state_k s'" and p = p and v = v] stamp k pv by simp
    moreover have "s'\<lparr>current_imu_data_buffer := e # es, imu_state_k := imu_state_i s'\<rparr> = s'"
      using cur rest k by (intro ImuPreintegration.equality) simp_all
    ultimately have "GetPose ext s' t_j =
                       Inr (s', Some (Orientation (imu_state_i s'), Finite p))"
      using eq cur rest pv by (simp add: GetPose_def Let_def)
    then show ?thesis using pv by simp
  next
    case False
    then have nf: "Position (imu_state_k s') = NonFinite \<or> Velocity (imu_state_k s') = NonFinite"
      unfolding k
      by (cases "Position (imu_state_i s')"; cases "Velocity (imu_state_i s')") auto
    from PredictState_zero_Delta_NonFinite [OF z nf, where ext = ext and t_now = t_j]
    have "map_sum id snd (GetPose ext s' t_j) =
            Inr (Some (Orientation (imu_state_i s'), NonFinite))"
      using eq cur rest k by (simp add: GetPose_def Let_def)
    then show ?thesis
      using False
      by (cases "Position (imu_state_i s')"; cases "Velocity (imu_state_i s')") auto
  qed
  have front: "hd (current_imu_data_buffer s') = e" and ne': "current_imu_data_buffer s' \<noteq> []"
    using cur rest by simp_all
  have le': "t_j \<le> imu_t e" using le rest by simp
  show ?thesis
    unfolding front using ne' le' later same by blast
qed

text \<open>
  C1, as the code has it, on two runs. Samples stamped 1, 2 and 3 and a registration at
  2: the front sample left in the buffer is stamped 2 and \<^verbatim>\<open>GetPose(2)\<close> returns the
  committed anchor's pose. Anchor stamped 5, one sample stamped 5 and a registration at 5
  with both overrides: \<^verbatim>\<open>GetPose(5)\<close> returns a position that is not finite.
\<close>

theorem GetPose_after_register_witness:
  "(case Register_then_GetPose demo_ext
           (demo_imu [imu_sample 1, imu_sample 2, imu_sample 3]) 2 None None of
      Inr (s'', Some tx, Some T) \<Rightarrow>
        T = (Orientation (imu_state_i s''), Position (imu_state_i s'')) \<and>
        Position (imu_state_i s'') \<noteq> NonFinite \<and>
        imu_t (hd (current_imu_data_buffer s'')) = 2
    | _ \<Rightarrow> False) \<and>
   (case Register_then_GetPose demo_ext (demo_imu_at 5 [imu_sample 5]) 5
           (Some mat_id) (Some (4, 0, 0)) of
      Inr (s'', Some tx, Some T) \<Rightarrow> T = (mat_id, NonFinite)
    | _ \<Rightarrow> False)"
proof -
  obtain s' tx p v where ok: "RegisterNewImuPreintegratedFactor demo_ext
           (demo_imu [imu_sample 1, imu_sample 2, imu_sample 3]) 2 None None
             = Inr (s', Some tx)"
    and front: "imu_t (hd (current_imu_data_buffer s')) = 2"
    and pv: "Position (imu_state_i s') = Finite p" "Velocity (imu_state_i s') = Finite v"
    by (simp add: imu_demo_defs)
  have z: "delta (Integrate demo_ext (PreIntegrator_new demo_ext) 2
                    (GyroBias (imu_state_i s')) (AccelBias (imu_state_i s')) False False)
             = zero_Delta"
    by (simp add: demo_ext_def)
  from GetPose_after_register [OF ok] front z pv
  have g1: "GetPose demo_ext s' 2 =
          Inr (s', Some (Orientation (imu_state_i s'), Position (imu_state_i s')))"
    by simp
  obtain s2 tx2 where ok2: "RegisterNewImuPreintegratedFactor demo_ext
           (demo_imu_at 5 [imu_sample 5]) 5 (Some mat_id) (Some (4, 0, 0)) = Inr (s2, Some tx2)"
    and front2: "imu_t (hd (current_imu_data_buffer s2)) = 5"
    and o2: "Orientation (imu_state_i s2) = mat_id"
    and v2: "Velocity (imu_state_i s2) = NonFinite"
    by (simp add: imu_demo_defs demo_imu_at_def)
  have z2: "delta (Integrate demo_ext (PreIntegrator_new demo_ext) 5
                    (GyroBias (imu_state_i s2)) (AccelBias (imu_state_i s2)) False False)
             = zero_Delta"
    by (simp add: demo_ext_def)
  from GetPose_after_register [OF ok2] front2 z2 v2 o2
  have g2: "map_sum id snd (GetPose demo_ext s2 5) = Inr (Some (mat_id, NonFinite))"
    by (cases "Position (imu_state_i s2)") simp_all
  then obtain s3 where g2': "GetPose demo_ext s2 5 = Inr (s3, Some (mat_id, NonFinite))"
    by (cases "GetPose demo_ext s2 5") auto
  show ?thesis
    using front ok g1 pv ok2 g2' unfolding Register_then_GetPose_def by simp
qed

text \<open>
  C1, as stated, fails: with samples stamped 1 and 3 buffered, the registration at 2
  returns a transaction and leaves the sample stamped 3 at the front, so the
  \<^verbatim>\<open>GetPose(2)\<close> that follows returns false and no pose.
\<close>

theorem register_then_GetPose_counterexample:
  "(case Register_then_GetPose demo_ext (demo_imu [imu_sample 1, imu_sample 3]) 2 None None of
      Inr (s', Some tx, None) \<Rightarrow> True
    | _ \<Rightarrow> False)"
  by (simp add: Register_then_GetPose_def imu_demo_defs)

section \<open>Properties of transactions\<close>

lemma addVariable_not_empty: "added_variables (addVariable v ow tx) \<noteq> []"
  by (auto simp: addVariable_def Let_def)

lemma run_call_not_empty: "\<not> tx_empty (transaction (run_call b c))"
  by (cases c)
     (simp_all add: tx_empty_def AddConstraint_def AddPrior_def AddPoseConstraint_def
        AddPoseConstraint_T_def AddPosePrior_def AddPosePrior_noise_def AddPoseVariables_def
        AddPoseVariables_T_def addConstraint_def addVariable_not_empty Let_def)

text \<open>
  C9: a \<^verbatim>\<open>Pose3DStampedTransaction\<close>, or a transaction of the base class, on which no
  call added a variable or a constraint holds an empty transaction and \<^verbatim>\<open>GetTransaction\<close>
  returns null; after any call that adds one, the transaction is not empty and
  \<^verbatim>\<open>GetTransaction\<close> returns it.
\<close>

theorem GetTransaction_null_iff_nothing_added:
  "tx_empty (transaction (built transaction_stamp oc ov calls)) = (calls = []) \<and>
   GetTransaction (built transaction_stamp oc ov calls) =
     (if calls = [] then None else Some (transaction (built transaction_stamp oc ov calls)))"
proof (cases calls rule: rev_cases)
  case Nil
  then show ?thesis
    by (simp add: built_def GetTransaction_def PoseTransaction_new_def Transaction_new_def
          tx_empty_def)
next
  case (snoc ys c)
  then show ?thesis
    by (simp add: built_def GetTransaction_def run_call_not_empty)
qed

section \<open>Properties of the global map\<close>

lemmas gm_demo_defs = demo_map_def demo_gm_ext_def demo_submap_def Submap_new_def demo_request_def
  pose_id_def mat_id_def vzero_def

lemma vnorm_self: "vnorm (vsub p p) = 0"
  by (cases p rule: prod_cases3) (simp add: vnorm_def)

lemma vdot_self_nonneg: "0 \<le> vdot v v"
  by (cases v rule: prod_cases3) simp

lemma vnorm_less_iff: "0 < r \<Longrightarrow> vnorm v < r \<longleftrightarrow> vdot v v < r\<^sup>2"
  unfolding vnorm_def
  by (metis vdot_self_nonneg real_sqrt_less_iff real_sqrt_abs abs_of_pos)

lemma RunLoopClosure_submaps:
  "RunLoopClosure ext g q = Inr (g', tx, calls) \<Longrightarrow> online_submaps g' = online_submaps g"
  by (auto simp: RunLoopClosure_def Let_def split: if_splits sum.splits prod.splits)

lemma AddMeasurement_result:
  assumes "AddMeasurement ext g T stamp = Inr (g', tx, k)"
  shows "k = GetSubmapId g T \<and>
         online_submaps g' =
           (if k = int (length (online_submaps g))
            then online_submaps g @ [Submap_new stamp T] else online_submaps g)"
  using assms
  by (auto simp: AddMeasurement_def Let_def dest!: RunLoopClosure_submaps
           split: if_splits sum.splits prod.splits option.splits)

text \<open>
  C4: with a positive \<open>submap_size\<close>, the submap a measurement at pose \<open>T\<close> is assigned
  to exists once \<^verbatim>\<open>AddMeasurement\<close> has run, and the distance from the position of \<open>T\<close>
  to its initial anchor is below \<open>submap_size\<close>. When the anchors of the previous and of
  the current submap are both within \<open>submap_size\<close>, the previous one is chosen. When
  neither is (of those that exist), the id is the number of submaps and a new submap
  anchored at \<open>T\<close> is appended.
\<close>

theorem submap_assignment:
  assumes size_pos: "0 < submap_size g"
      and ok: "AddMeasurement ext g T stamp = Inr (g', tx, k)"
  shows "k = GetSubmapId g T \<and> 0 \<le> k \<and> nat k < length (online_submaps g') \<and>
         anchor_distance (online_submaps g' ! nat k) T < submap_size g \<and>
         (2 \<le> length (online_submaps g) \<and>
          anchor_distance (online_submaps g ! (length (online_submaps g) - 2)) T < submap_size g \<and>
          anchor_distance (online_submaps g ! (length (online_submaps g) - 1)) T < submap_size g
            \<longrightarrow> k = int (length (online_submaps g)) - 2) \<and>
         ((2 \<le> length (online_submaps g) \<longrightarrow>
             \<not> anchor_distance (online_submaps g ! (length (online_submaps g) - 2)) T
                 < submap_size g) \<and>
          (1 \<le> length (online_submaps g) \<longrightarrow>
             \<not> anchor_distance (online_submaps g ! (length (online_submaps g) - 1)) T
                 < submap_size g)
            \<longrightarrow> k = int (length (online_submaps g)) \<and>
                online_submaps g' = online_submaps g @ [Submap_new stamp T])"
proof -
  from AddMeasurement_result [OF ok]
  have k: "k = GetSubmapId g T"
    and subs: "online_submaps g' =
           (if k = int (length (online_submaps g))
            then online_submaps g @ [Submap_new stamp T] else online_submaps g)"
    by simp_all
  have new: "anchor_distance (Submap_new stamp T) T < submap_size g"
    using size_pos by (simp add: anchor_distance_def Submap_new_def vnorm_self)
  consider (empty) "online_submaps g = []"
    | (one) "length (online_submaps g) = 1"
    | (more) "2 \<le> length (online_submaps g)"
    by (cases "online_submaps g"; cases "tl (online_submaps g)") auto
  then show ?thesis
  proof cases
    case empty
    then show ?thesis
      using k subs new by (simp add: GetSubmapId_def)
  next
    case one
    then obtain a where a: "online_submaps g = [a]"
      by (cases "online_submaps g") auto
    show ?thesis
      using k subs new a
      by (auto simp: GetSubmapId_def Let_def anchor_distance_def)
  next
    case more
    then have ne: "online_submaps g \<noteq> []" and n1: "length (online_submaps g) \<noteq> 1" by auto
    show ?thesis
      using k subs new more ne n1
      by (auto simp: GetSubmapId_def Let_def anchor_distance_def nth_append nat_diff_distrib)
  qed
qed

text \<open>
  C4 on two submaps anchored at \<open>x = 0\<close> and \<open>x = 8\<close> with \<open>submap_size = 10\<close>: a pose at
  \<open>x = 5\<close> is within both and goes to the previous one (id 0); a pose at \<open>x = 30\<close> is
  within neither and opens submap 2 at that pose.
\<close>

theorem submap_assignment_witness:
  "0 < submap_size (demo_map [demo_submap 0 0, demo_submap 1 8]) \<and>
   anchor_distance (demo_submap 0 0) (mat_id, (5, 0, 0)) < 10 \<and>
   anchor_distance (demo_submap 1 8) (mat_id, (5, 0, 0)) < 10 \<and>
   (case AddMeasurement (demo_gm_ext []) (demo_map [demo_submap 0 0, demo_submap 1 8])
           (mat_id, (5, 0, 0)) 2 of
      Inr (g', tx, k) \<Rightarrow>
        k = 0 \<and> online_submaps g' = [demo_submap 0 0, demo_submap 1 8]
    | _ \<Rightarrow> False) \<and>
   (case AddMeasurement (demo_gm_ext []) (demo_map [demo_submap 0 0, demo_submap 1 8])
           (mat_id, (30, 0, 0)) 2 of
      Inr (g', tx, k) \<Rightarrow>
        k = 2 \<and>
        online_submaps g' = [demo_submap 0 0, demo_submap 1 8, demo_submap 2 30] \<and>
        anchor_distance (demo_submap 2 30) (mat_id, (30, 0, 0)) < 10
    | _ \<Rightarrow> False)"
proof -
  let ?g = "demo_map [demo_submap 0 0, demo_submap 1 8]"
  have pos: "0 < submap_size ?g" by (simp add: demo_map_def)
  have d0: "anchor_distance (demo_submap 0 0) (mat_id, (5, 0, 0)) < 10"
    and d1: "anchor_distance (demo_submap 1 8) (mat_id, (5, 0, 0)) < 10"
    by (simp_all add: anchor_distance_def vnorm_less_iff gm_demo_defs)
  obtain g0 tx0 k0 where near: "AddMeasurement (demo_gm_ext []) ?g (mat_id, (5, 0, 0)) 2
                                  = Inr (g0, tx0, k0)"
    and s0: "online_submaps g0 = [demo_submap 0 0, demo_submap 1 8]"
    by (simp add: AddMeasurement_def GetSubmapId_def vnorm_less_iff gm_demo_defs)
  from submap_assignment [OF pos near]
  have "2 \<le> length (online_submaps ?g) \<and>
        anchor_distance (online_submaps ?g ! (length (online_submaps ?g) - 2))
          (mat_id, (5, 0, 0)) < submap_size ?g \<and>
        anchor_distance (online_submaps ?g ! (length (online_submaps ?g) - 1))
          (mat_id, (5, 0, 0)) < submap_size ?g
          \<longrightarrow> k0 = int (length (online_submaps ?g)) - 2"
    by blast
  with d0 d1 have k0: "k0 = 0"
    by (simp add: demo_map_def)
  obtain g' tx k where far: "AddMeasurement (demo_gm_ext []) ?g (mat_id, (30, 0, 0)) 2
                               = Inr (g', tx, k)"
    by (simp add: AddMeasurement_def GetSubmapId_def vnorm_less_iff gm_demo_defs
          InitiateNewSubmapPose_def vector_at_def RunLoopClosure_def Let_def)
  have f30: "\<not> anchor_distance (demo_submap 0 0) (mat_id, (30, 0, 0)) < 10"
    and f22: "\<not> anchor_distance (demo_submap 1 8) (mat_id, (30, 0, 0)) < 10"
    by (simp_all add: anchor_distance_def vnorm_less_iff gm_demo_defs)
  from submap_assignment [OF pos far]
  have A: "anchor_distance (online_submaps g' ! nat k) (mat_id, (30, 0, 0)) < submap_size ?g"
    and B: "(2 \<le> length (online_submaps ?g) \<longrightarrow>
             \<not> anchor_distance (online_submaps ?g ! (length (online_submaps ?g) - 2))
                  (mat_id, (30, 0, 0)) < submap_size ?g) \<and>
          (1 \<le> length (online_submaps ?g) \<longrightarrow>
             \<not> anchor_distance (online_submaps ?g ! (length (online_submaps ?g) - 1))
                  (mat_id, (30, 0, 0)) < submap_size ?g)
            \<longrightarrow> k = int (length (online_submaps ?g)) \<and>
                online_submaps g' = online_submaps ?g @ [Submap_new 2 (mat_id, (30, 0, 0))]"
    by blast+
  from B f30 f22
  have C: "k = 2 \<and> online_submaps g' = [demo_submap 0 0, demo_submap 1 8, demo_submap 2 30]"
    by (simp add: demo_map_def demo_submap_def)
  from A C have D: "anchor_distance (demo_submap 2 30) (mat_id, (30, 0, 0)) < 10"
    by (simp add: demo_map_def)
  show ?thesis
    using pos d0 d1 near s0 k0 far C D by simp
qed

lemma refine_candidates_log:
  "refine_candidates ext subs q ms Ts i tx calls = Inr (tx', calls') \<Longrightarrow>
     \<exists>new. calls' = calls @ new \<and>
           (\<forall>(m, T) \<in> set new. m \<in> set ms \<and> m \<noteq> q + 1 \<and> m \<noteq> q - 1) \<and>
           tx' = foldl (\<lambda>tx (m, T).
                          case GenerateTransaction ext (subs ! nat m) (subs ! nat q) T of
                            None \<Rightarrow> tx
                          | Some new_transaction \<Rightarrow> merge tx new_transaction) tx new"
proof (induction ms arbitrary: i tx calls)
  case Nil
  then show ?case by simp
next
  case (Cons m ms)
  show ?case
  proof (cases "m = q + 1 \<or> m = q - 1")
    case True
    with Cons.prems have "refine_candidates ext subs q ms Ts (i + 1) tx calls = Inr (tx', calls')"
      by simp
    from Cons.IH [OF this] show ?thesis by auto
  next
    case False
    with Cons.prems obtain matched query where
      m: "vector_at subs m = Inr matched" and qq: "vector_at subs q = Inr query" and
      i: "i < length Ts" and
      rec: "refine_candidates ext subs q ms Ts (i + 1)
              (case GenerateTransaction ext matched query (Ts ! i) of
                 None \<Rightarrow> tx | Some new_transaction \<Rightarrow> merge tx new_transaction)
              (calls @ [(m, Ts ! i)]) = Inr (tx', calls')"
      by (auto split: sum.splits if_splits)
    from m have m': "matched = subs ! nat m" by (auto simp: vector_at_def split: if_splits)
    from qq have q': "query = subs ! nat q" by (auto simp: vector_at_def split: if_splits)
    from Cons.IH [OF rec] obtain new where
      new: "calls' = (calls @ [(m, Ts ! i)]) @ new"
           "\<forall>(m, T) \<in> set new. m \<in> set ms \<and> m \<noteq> q + 1 \<and> m \<noteq> q - 1"
           "tx' = foldl (\<lambda>tx (m, T).
                          case GenerateTransaction ext (subs ! nat m) (subs ! nat q) T of
                            None \<Rightarrow> tx
                          | Some new_transaction \<Rightarrow> merge tx new_transaction)
                    (case GenerateTransaction ext matched query (Ts ! i) of
                       None \<Rightarrow> tx | Some new_transaction \<Rightarrow> merge tx new_transaction) new"
      by blast
    show ?thesis
      using new False m' q'
      by (intro exI [of _ "(m, Ts ! i) # new"]) auto
  qed
qed

text \<open>
  C5: in a run of \<^verbatim>\<open>RunLoopClosure\<close> for the query index \<open>q\<close>, no call of the refinement
  is made for a matched index \<open>q\<close>, \<open>q - 1\<close> or \<open>q + 1\<close>, and the transaction returned is
  the merge of what the refinement returned for the calls made, so it holds no constraint
  from a refinement between \<open>q\<close> and an adjacent submap.
\<close>

theorem loop_closure_skips_adjacent:
  assumes "RunLoopClosure ext g query_index = Inr (g', tx, calls)"
  shows "(\<forall>(m, T) \<in> set calls.
            m \<noteq> query_index \<and> m \<noteq> query_index - 1 \<and> m \<noteq> query_index + 1) \<and>
         (case tx of
            None \<Rightarrow> calls = []
          | Some t \<Rightarrow> t = merge_refinements ext (online_submaps g) query_index calls)"
proof (cases "length (online_submaps g) = 1")
  case True
  with assms show ?thesis by (simp add: RunLoopClosure_def)
next
  case False
  obtain matched_indices Ts where
    f: "FindRelocCandidates ext (online_submaps g)
          (T_WORLD_SUBMAP (online_submaps g ! nat query_index)) None ([], []) = (matched_indices, Ts)"
    by (cases "FindRelocCandidates ext (online_submaps g)
          (T_WORLD_SUBMAP (online_submaps g ! nat query_index)) None ([], [])")
  define filtered where
    "filtered = filter (\<lambda>i. \<not> (i = query_index \<or> i = query_index - 1)) matched_indices"
  from assms False obtain query where q: "vector_at (online_submaps g) query_index = Inr query"
    by (auto simp: RunLoopClosure_def split: sum.splits)
  then have q': "query = online_submaps g ! nat query_index"
    by (auto simp: vector_at_def split: if_splits)
  show ?thesis
  proof (cases "filtered = []")
    case True
    with assms False q q' f show ?thesis
      by (simp add: RunLoopClosure_def filtered_def Let_def)
  next
    case ne: False
    with assms False q q' f obtain t where
      r: "refine_candidates ext (online_submaps g) query_index filtered Ts 0 Transaction_new []
            = Inr (t, calls)" and tx: "tx = Some t"
      by (auto simp: RunLoopClosure_def filtered_def Let_def split: sum.splits prod.splits)
    from refine_candidates_log [OF r]
    have "\<forall>(m, T) \<in> set calls. m \<in> set filtered \<and> m \<noteq> query_index + 1 \<and> m \<noteq> query_index - 1"
      and "t = merge_refinements ext (online_submaps g) query_index calls"
      by (auto simp: merge_refinements_def)
    then show ?thesis
      using tx by (auto simp: filtered_def)
  qed
qed

text \<open>
  C5 on five submaps, the query index 2 and a candidate search that returns all five
  indices: the refinement is called for 0 and 4 only.
\<close>

theorem loop_closure_skips_adjacent_witness:
  "(case RunLoopClosure (demo_gm_ext [0, 1, 2, 3, 4])
           (demo_map [demo_submap 0 0, demo_submap 1 20, demo_submap 2 40, demo_submap 3 20,
                      demo_submap 4 0]) 2 of
      Inr (g', Some t, calls) \<Rightarrow>
        map fst calls = [0, 4] \<and> length (added_constraints t) = 2 \<and>
        t = merge_refinements (demo_gm_ext [0, 1, 2, 3, 4])
              [demo_submap 0 0, demo_submap 1 20, demo_submap 2 40, demo_submap 3 20,
               demo_submap 4 0] 2 calls
    | _ \<Rightarrow> False)"
proof -
  let ?subs = "[demo_submap 0 0, demo_submap 1 20, demo_submap 2 40, demo_submap 3 20,
               demo_submap 4 0]"
  obtain g' t calls where
    ok: "RunLoopClosure (demo_gm_ext [0, 1, 2, 3, 4]) (demo_map ?subs) 2 = Inr (g', Some t, calls)"
    and c: "map fst calls = [0, 4]" and n: "length (added_constraints t) = 2"
    by (simp add: RunLoopClosure_def vector_at_def gm_demo_defs Let_def GetTransaction_def
          AddPoseConstraint_T_def PoseTransaction_new_def Transaction_new_def addConstraint_def
          tx_empty_def merge_def)
  from loop_closure_skips_adjacent [OF ok]
  have "t = merge_refinements (demo_gm_ext [0, 1, 2, 3, 4]) ?subs 2 calls"
    by (simp add: demo_map_def)
  then show ?thesis using ok c n by simp
qed

text \<open>
  Every relocalization that returns a submap records it as active with the type
  \<^verbatim>\<open>OFFLINE\<close>, whichever table it was matched in.
\<close>

lemma reloc_offline_loop_records:
  "reloc_offline_loop ext g req ms Ts i = Inr (Some (g', r)) \<Longrightarrow>
     (r = None \<and> g' = g) \<or> (r \<noteq> None \<and> active_submap_type g' = OFFLINE)"
  by (induction ms arbitrary: i)
     (auto simp: Let_def split: if_splits sum.splits option.splits)

lemma reloc_online_loop_records:
  "reloc_online_loop ext g req ms Ts i = Inr (Some (g', r)) \<Longrightarrow>
     (r = None \<and> g' = g) \<or> (r \<noteq> None \<and> active_submap_type g' = OFFLINE)"
  by (induction ms arbitrary: i)
     (auto simp: Let_def split: if_splits sum.splits option.splits)

lemma ProcessRelocRequest_records_OFFLINE:
  assumes "ProcessRelocRequest ext g req = Inr (g', Some msg)"
  shows "active_submap_type g' = OFFLINE"
  using assms
  by (auto simp: ProcessRelocRequest_def Let_def
           split: if_splits sum.splits option.splits prod.splits
           dest!: reloc_offline_loop_records reloc_online_loop_records)

text \<open>
  C6 fails on the code. With no offline submap and one online submap, a first request
  matches online submap 0, returns it, and records it as active with the type
  \<^verbatim>\<open>OFFLINE\<close>. The same request again finds online submap 0, the guard of the online
  loop asks for the type \<^verbatim>\<open>ONLINE\<close>, and the submap is refined and sent a second time.
\<close>

theorem reloc_resends_active_online_submap:
  "(case ProcessRelocRequest (demo_gm_ext [0]) (demo_map [demo_submap 0 0]) (demo_request 1) of
      Inr (g1, Some msg1) \<Rightarrow>
        active_submap_id g1 = 0 \<and> active_submap_type g1 = OFFLINE \<and>
        msg_submap msg1 = demo_submap 0 0 \<and>
        ProcessRelocRequest (demo_gm_ext [0]) g1 (demo_request 1) = Inr (g1, Some msg1)
    | _ \<Rightarrow> False)"
  by (simp add: ProcessRelocRequest_def vector_at_def gm_demo_defs Let_def)

section \<open>Properties of the keyframe rule\<close>

lemma parallax_loop_sum:
  "parallax_loop tr t1 t2 ids tot n =
     (tot + sum_list (map (parallax_of tr t1 t2) (filter (seen_in_both tr t1 t2) ids)),
      n + int (length (filter (seen_in_both tr t1 t2) ids)))"
  by (induction ids arbitrary: tot n)
     (auto simp: seen_in_both_def parallax_of_def split: option.splits)

lemma ComputeAvgParallax_mean:
  assumes "distinct ids"
  shows "double_greater (ComputeAvgParallax tr t1 t2 ids) theta =
           mean_parallax_exceeds tr t1 t2 (set ids) theta"
proof -
  let ?m = "filter (seen_in_both tr t1 t2) ids"
  have d: "distinct ?m" using assms by simp
  have s: "Set.filter (seen_in_both tr t1 t2) (set ids) = set ?m" by auto
  have sum: "sum (parallax_of tr t1 t2) (set ?m) = sum_list (map (parallax_of tr t1 t2) ?m)"
    using sum_list_distinct_conv_sum_set [OF d, of "parallax_of tr t1 t2"] by simp
  have card: "card (set ?m) = length ?m" using distinct_card [OF d] .
  show ?thesis
  proof (cases "?m = []")
    case True
    then have "set ?m = {}" by (simp only: set_empty)
    with True show ?thesis
      unfolding mean_parallax_exceeds_def s
      by (simp add: ComputeAvgParallax_def parallax_loop_sum double_greater_def)
  next
    case False
    then have "set ?m \<noteq> {}" by (simp only: set_empty not_False_eq_True)
    with False show ?thesis
      unfolding mean_parallax_exceeds_def s sum card
      by (simp add: ComputeAvgParallax_def parallax_loop_sum double_greater_def)
  qed
qed

text \<open>
  C2: for landmark ids without repetition, \<^verbatim>\<open>IsKeyframe\<close> is true exactly when the time
  since the last keyframe is at least \<^verbatim>\<open>keyframe_min_time_in_seconds\<close> and one of
  these holds: the mean parallax between the last keyframe and the image, over the
  triangulated and untriangulated landmarks, exceeds \<^verbatim>\<open>keyframe_parallax\<close>; fewer
  than \<^verbatim>\<open>keyframe_tracks_drop\<close> landmarks are triangulated; \<^verbatim>\<open>added_since_kf_\<close>
  equals \<^verbatim>\<open>window_size - 1\<close>. Otherwise it is false.
\<close>

theorem IsKeyframe_rule:
  assumes "distinct (triangulated_ids @ untriangulated_ids)"
  shows "IsKeyframe v img_time triangulated_ids untriangulated_ids =
           spec_is_keyframe v img_time triangulated_ids untriangulated_ids"
  using ComputeAvgParallax_mean [OF assms, of "vio_tracker v" "cur_kf_time v" img_time
          "keyframe_parallax v"]
  by (auto simp: IsKeyframe_def spec_is_keyframe_def Let_def)

lemma sqrt_25: "sqrt 25 = 5"
  using real_sqrt_abs [of 5] by simp

text \<open>
  C2 on the tracker above, 2 s after the last keyframe: mean parallax 5 against the
  thresholds 4 and 5, two triangulated landmarks against the drop thresholds 1 and 3,
  nine frames added with a window of ten; and 0.5 s after the last keyframe.
\<close>

theorem IsKeyframe_rule_witness:
  "distinct ([4, 5] @ [6 :: nat]) \<and>
   IsKeyframe (demo_vio 4 1 0) 2000000000 [4, 5] [6] \<and>
   \<not> IsKeyframe (demo_vio 5 1 0) 2000000000 [4, 5] [6] \<and>
   IsKeyframe (demo_vio 5 3 0) 2000000000 [4, 5] [6] \<and>
   IsKeyframe (demo_vio 5 1 9) 2000000000 [4, 5] [6] \<and>
   \<not> IsKeyframe (demo_vio 4 1 0) 500000000 [4, 5] [6]"
proof -
  have d: "distinct ([4, 5] @ [6 :: nat])" by simp
  have f: "Set.filter (seen_in_both demo_tracker 0 2000000000) {4, 5, 6} = {4, 5}"
    by (auto simp: seen_in_both_def demo_tracker_def)
  have f': "Set.filter (seen_in_both demo_tracker 0 500000000) {4, 5, 6} = {}"
    by (auto simp: seen_in_both_def demo_tracker_def)
  have m: "mean_parallax_exceeds demo_tracker 0 2000000000 {4, 5, 6} theta = (5 > theta)" for theta
    unfolding mean_parallax_exceeds_def f
    by (simp add: parallax_of_def demo_tracker_def sqrt_25)
  have m': "\<not> mean_parallax_exceeds demo_tracker 0 500000000 {4, 5, 6} theta" for theta
    unfolding mean_parallax_exceeds_def f' by simp
  have u: "set [4, 5] \<union> set [6 :: nat] = {4, 5, 6}" by auto
  show ?thesis
    using d
      IsKeyframe_rule [OF d, of "demo_vio 4 1 0" 2000000000]
      IsKeyframe_rule [OF d, of "demo_vio 5 1 0" 2000000000]
      IsKeyframe_rule [OF d, of "demo_vio 5 3 0" 2000000000]
      IsKeyframe_rule [OF d, of "demo_vio 5 1 9" 2000000000]
      IsKeyframe_rule [OF d, of "demo_vio 4 1 0" 500000000]
    unfolding spec_is_keyframe_def u
    by (simp add: demo_vio_def m m' toSec_def)
qed

end
